theory Spec2Isabelle
  imports Main
begin

section \<open>Data model (database.py)\<close>

text \<open>
  The tables of database.py, one record per model class and one list of rows per table,
  in insertion order. The TimestampMixin columns (created_at, updated_at) are left out:
  they hold wall-clock time and no operation below reads them. So are the columns that
  app.py never writes (Doctor.bio, Patient.date_of_birth, gender and insurance_provider).

  A \<open>datetime.date\<close> is its proleptic Gregorian ordinal (\<open>date.toordinal()\<close>), so that
  \<open>d + timedelta(days=7)\<close> is \<open>d + 7\<close> and comparison of dates is comparison of integers;
  the upper end of Python's calendar (year 9999) is not modelled. A \<open>datetime.time\<close>
  parsed with the format \<open>%H:%M\<close> is the pair (hour, minute).
\<close>

type_synonym date = int
type_synonym time_of_day = "nat \<times> nat"

datatype AppointmentStatus = BOOKED | COMPLETED | CANCELLED

text \<open>
  \<open>AppointmentStatus.__members__\<close>: the mapping from member names to members, in
  definition order. Its keys are the names (\<open>BOOKED\<close>), not the values (\<open>Booked\<close>).
\<close>

definition AppointmentStatus_members :: "(string \<times> AppointmentStatus) list" where
  "AppointmentStatus_members =
     [(''BOOKED'', BOOKED), (''COMPLETED'', COMPLETED), (''CANCELLED'', CANCELLED)]"

fun status_value :: "AppointmentStatus \<Rightarrow> string" where
  "status_value BOOKED = ''Booked''"
| "status_value COMPLETED = ''Completed''"
| "status_value CANCELLED = ''Cancelled''"

record user =
  u_id :: int
  full_name :: string
  email :: string
  phone :: string
  role :: string
  password_hash :: string
  u_is_active :: bool

record department =
  dep_id :: int
  dep_name :: string
  description :: string

record doctor =
  d_id :: int
  d_user_id :: int
  d_department_id :: int
  specialization :: string
  room :: string
  availability_summary :: string
  d_is_active :: bool

record patient =
  p_id :: int
  p_user_id :: int
  address :: "string option"
  blood_group :: "string option"
  emergency_contact :: "string option"

record doctor_availability =
  av_id :: int
  av_doctor_id :: int
  available_date :: date
  start_time :: time_of_day
  end_time :: time_of_day

record appointment =
  a_id :: int
  patient_id :: int
  doctor_id :: int
  department_id :: int
  appointment_date :: date
  appointment_time :: time_of_day
  status :: AppointmentStatus
  reason :: string

record treatment_note =
  n_id :: int
  appointment_id :: int
  diagnosis :: string
  prescription :: string
  n_notes :: string

record db =
  users :: "user list"
  doctors :: "doctor list"
  patients :: "patient list"
  departments :: "department list"
  availabilities :: "doctor_availability list"
  appointments :: "appointment list"
  treatment_notes :: "treatment_note list"

subsection \<open>The storage layer\<close>

text \<open>
  An integer primary key of a new row is one more than the largest key of the table
  (1 in an empty table), as SQLite assigns it.
\<close>

definition next_id :: "int list \<Rightarrow> int" where
  "next_id ids = (if ids = [] then 1 else Max (set ids) + 1)"

text \<open>
  \<open>Model.query.get(pk)\<close> is the row with that primary key, and
  \<open>Model.query.filter_by(...).first()\<close> the first row that matches: both are
  \<^const>\<open>find\<close> on the table.

  The unique constraints of database.py, as the storage layer checks them when a row is
  written: \<open>uniq_doctor_slot\<close> on appointments (doctor_id, appointment_date,
  appointment_time), \<open>uniq_doctor_date_availability\<close> on doctor_availability (doctor_id,
  available_date), and the unique column treatment_notes.appointment_id. A write that
  breaks one raises IntegrityError at commit and nothing is stored. Foreign keys are
  declared but SQLite does not enforce them under the application's configuration, so
  they are not checked here either.
\<close>

text \<open>
  An INTEGER of SQLite is a signed 64-bit integer, while \<open>int(...)\<close> of Python has no
  bound. Given a larger number as a parameter of a statement, the sqlite3 driver raises
  OverflowError; SQLAlchemy lets that exception through, and nothing is stored.
  book_appointment passes the two ids of its form to statements, and the range is checked
  there. For an id in a URL and for the department id of the doctor forms the range is
  not modelled: the properties of those views are about rows that exist, and without the
  check the model reaches no fewer stores than the application.
\<close>

definition sqlite_integer :: "int \<Rightarrow> bool" where
  "sqlite_integer n \<longleftrightarrow> - (2 ^ 63) \<le> n \<and> n < 2 ^ 63"

definition same_slot :: "appointment \<Rightarrow> int \<Rightarrow> date \<Rightarrow> time_of_day \<Rightarrow> bool" where
  "same_slot x did d t \<longleftrightarrow>
     doctor_id x = did \<and> appointment_date x = d \<and> appointment_time x = t"

definition same_day :: "doctor_availability \<Rightarrow> int \<Rightarrow> date \<Rightarrow> bool" where
  "same_day x did d \<longleftrightarrow> av_doctor_id x = did \<and> available_date x = d"

subsection \<open>Requests and responses\<close>

text \<open>
  A view function ends in one of three ways: it flashes a message with a category and
  redirects to an endpoint, it aborts with an HTTP status (\<open>abort(403)\<close>,
  \<open>get_or_404\<close>, a missing form key, which Flask answers with 400), or an exception
  leaves it unhandled. Rendering a template is the fourth outcome, of a GET.
\<close>

datatype response =
    Flash_Redirect string string string
  | Abort nat
  | Raise string
  | Render string

text \<open>
  A form field that the view converts (\<open>int(request.form[k])\<close>,
  \<open>datetime.strptime(request.form[k], fmt)\<close>): the key is missing, or its text is
  rejected by the conversion (ValueError), or it converts to a value. The conversions
  themselves are library code and are not modelled.
\<close>

datatype 'a field = Missing | Malformed | Parsed 'a

fun required :: "'a field \<Rightarrow> response + 'a" where
  "required Missing = Inl (Abort 400)"
| "required Malformed = Inl (Raise ''ValueError'')"
| "required (Parsed v) = Inr v"

datatype http_method = GET | POST

record availability_form =
  af_date :: "date field"
  af_start_time :: "time_of_day field"
  af_end_time :: "time_of_day field"

record book_form =
  bf_doctor_id :: "int field"
  bf_department_id :: "int field"
  bf_appointment_date :: "date field"
  bf_appointment_time :: "time_of_day field"
  bf_reason :: "string option"

record reschedule_form =
  rf_appointment_date :: "date field"
  rf_appointment_time :: "time_of_day field"

record clinical_form =
  cf_status :: "string option"
  cf_diagnosis :: "string option"
  cf_prescription :: "string option"
  cf_notes :: "string option"

text \<open>\<open>request.form.get(k, default)\<close> of an optional field.\<close>

fun form_get :: "string option \<Rightarrow> string \<Rightarrow> string" where
  "form_get None dflt = dflt"
| "form_get (Some v) dflt = v"

subsection \<open>Writes, with the constraint each one can break\<close>

definition insert_availability :: "db \<Rightarrow> doctor_availability \<Rightarrow> response \<Rightarrow> response \<times> db" where
  "insert_availability s r ok =
     (if list_ex (\<lambda>x. same_day x (av_doctor_id r) (available_date r)) (availabilities s)
      then (Raise ''IntegrityError'', s)
      else (ok, s\<lparr>availabilities := availabilities s @ [r]\<rparr>))"

definition insert_appointment :: "db \<Rightarrow> appointment \<Rightarrow> response \<Rightarrow> response \<times> db" where
  "insert_appointment s r ok =
     (if list_ex (\<lambda>x. same_slot x (doctor_id r) (appointment_date r) (appointment_time r))
           (appointments s)
      then (Raise ''IntegrityError'', s)
      else (ok, s\<lparr>appointments := appointments s @ [r]\<rparr>))"

text \<open>An UPDATE of one appointment row that moves it to another slot.\<close>

definition update_appointment :: "db \<Rightarrow> appointment \<Rightarrow> response \<Rightarrow> response \<times> db" where
  "update_appointment s r ok =
     (if list_ex (\<lambda>x. a_id x \<noteq> a_id r \<and>
            same_slot x (doctor_id r) (appointment_date r) (appointment_time r))
           (appointments s)
      then (Raise ''IntegrityError'', s)
      else (ok, s\<lparr>appointments := map (\<lambda>x. if a_id x = a_id r then r else x) (appointments s)\<rparr>))"

section \<open>The view functions (app.py)\<close>

text \<open>
  Each view function takes the store and returns its response with the store it leaves.
  The decorators \<open>login_required\<close> and \<open>role_required\<close> run before the body and are
  not part of it; the body reads the requester as \<open>current_user.patient_profile\<close> or
  \<open>current_user.doctor_profile\<close>, which is the id of a profile row, or \<open>None\<close> for a
  user without one (the attribute access on it then raises AttributeError).
  \<open>date.today()\<close> is an argument.
\<close>

subsection \<open>update_availability (app.py, 377-405)\<close>

definition update_availability ::
  "db \<Rightarrow> int option \<Rightarrow> date \<Rightarrow> availability_form \<Rightarrow> response \<times> db" where
  "update_availability s doctor today f =
     (case required (af_date f) of Inl r \<Rightarrow> (r, s) | Inr d \<Rightarrow>
      case required (af_start_time f) of Inl r \<Rightarrow> (r, s) | Inr st \<Rightarrow>
      case required (af_end_time f) of Inl r \<Rightarrow> (r, s) | Inr en \<Rightarrow>
      if \<not> (today \<le> d \<and> d \<le> today + 7)
      then (Flash_Redirect ''Select a date within the next 7 days.'' ''warning''
              ''doctor_dashboard'', s)
      else
       (case doctor of None \<Rightarrow> (Raise ''AttributeError'', s) | Some did \<Rightarrow>
        case find (\<lambda>x. same_day x did d) (availabilities s) of
          Some availability \<Rightarrow>
            (Flash_Redirect ''Availability saved.'' ''success'' ''doctor_dashboard'',
             s\<lparr>availabilities :=
                  map (\<lambda>x. if av_id x = av_id availability
                            then x\<lparr>start_time := st, end_time := en\<rparr> else x)
                      (availabilities s)\<rparr>)
        | None \<Rightarrow>
            insert_availability s
              \<lparr>av_id = next_id (map av_id (availabilities s)), av_doctor_id = did,
               available_date = d, start_time = st, end_time = en\<rparr>
              (Flash_Redirect ''Availability saved.'' ''success'' ''doctor_dashboard'')))"

subsection \<open>book_appointment (app.py, 497-536)\<close>

definition book_appointment ::
  "db \<Rightarrow> int option \<Rightarrow> http_method \<Rightarrow> book_form \<Rightarrow> response \<times> db" where
  "book_appointment s patient m f =
     (case m of GET \<Rightarrow> (Render ''book_appointment.html'', s) | POST \<Rightarrow>
      case required (bf_doctor_id f) of Inl r \<Rightarrow> (r, s) | Inr did \<Rightarrow>
      case required (bf_department_id f) of Inl r \<Rightarrow> (r, s) | Inr dep \<Rightarrow>
      case required (bf_appointment_date f) of Inl r \<Rightarrow> (r, s) | Inr d \<Rightarrow>
      case required (bf_appointment_time f) of Inl r \<Rightarrow> (r, s) | Inr t \<Rightarrow>
      if \<not> sqlite_integer did then (Raise ''OverflowError'', s)
      else
      case find (\<lambda>x. same_slot x did d t) (appointments s) of
        Some existing \<Rightarrow>
          (Flash_Redirect ''Slot already booked. Pick another time.'' ''danger''
             ''book_appointment'', s)
      | None \<Rightarrow>
         (case patient of None \<Rightarrow> (Raise ''AttributeError'', s) | Some pid \<Rightarrow>
          if \<not> sqlite_integer dep then (Raise ''OverflowError'', s)
          else
          insert_appointment s
            \<lparr>a_id = next_id (map a_id (appointments s)), patient_id = pid, doctor_id = did,
             department_id = dep, appointment_date = d, appointment_time = t,
             status = BOOKED, reason = form_get (bf_reason f) []\<rparr>
            (Flash_Redirect ''Appointment booked successfully.'' ''success''
               ''patient_dashboard'')))"

subsection \<open>cancel_appointment (app.py, 542-549)\<close>

definition cancel_appointment :: "db \<Rightarrow> int option \<Rightarrow> int \<Rightarrow> response \<times> db" where
  "cancel_appointment s patient aid =
     (case find (\<lambda>x. a_id x = aid) (appointments s) of None \<Rightarrow> (Abort 404, s)
      | Some appointment \<Rightarrow>
         (case patient of None \<Rightarrow> (Raise ''AttributeError'', s) | Some pid \<Rightarrow>
          if patient_id appointment \<noteq> pid then (Abort 403, s)
          else
            (Flash_Redirect ''Appointment cancelled.'' ''info'' ''patient_dashboard'',
             s\<lparr>appointments :=
                  map (\<lambda>x. if a_id x = a_id appointment then x\<lparr>status := CANCELLED\<rparr> else x)
                      (appointments s)\<rparr>)))"

subsection \<open>reschedule_appointment (app.py, 555-576)\<close>

definition reschedule_appointment ::
  "db \<Rightarrow> int option \<Rightarrow> int \<Rightarrow> reschedule_form \<Rightarrow> response \<times> db" where
  "reschedule_appointment s patient aid f =
     (case find (\<lambda>x. a_id x = aid) (appointments s) of None \<Rightarrow> (Abort 404, s)
      | Some appointment \<Rightarrow>
         (case patient of None \<Rightarrow> (Raise ''AttributeError'', s) | Some pid \<Rightarrow>
          if patient_id appointment \<noteq> pid then (Abort 403, s)
          else
           (case required (rf_appointment_date f) of Inl r \<Rightarrow> (r, s) | Inr new_date \<Rightarrow>
            case required (rf_appointment_time f) of Inl r \<Rightarrow> (r, s) | Inr new_time \<Rightarrow>
            let conflict = find (\<lambda>x. same_slot x (doctor_id appointment) new_date new_time)
                             (appointments s)
            in if (case conflict of None \<Rightarrow> False | Some c \<Rightarrow> a_id c \<noteq> a_id appointment)
               then (Flash_Redirect ''Selected slot is unavailable.'' ''danger''
                       ''patient_dashboard'', s)
               else update_appointment s
                      (appointment\<lparr>appointment_date := new_date,
                         appointment_time := new_time, status := BOOKED\<rparr>)
                      (Flash_Redirect ''Appointment rescheduled.'' ''success''
                         ''patient_dashboard''))))"

subsection \<open>The status field of a form\<close>

text \<open>
  \<open>if status in AppointmentStatus.__members__: appointment.status =
  AppointmentStatus[status]\<close>: the lookup is by member name, and a missing field
  (\<open>None\<close>) is in no mapping.
\<close>

definition apply_status :: "string option \<Rightarrow> AppointmentStatus \<Rightarrow> AppointmentStatus" where
  "apply_status st old =
     (case st of None \<Rightarrow> old
      | Some k \<Rightarrow> (case map_of AppointmentStatus_members k of None \<Rightarrow> old | Some v \<Rightarrow> v))"

subsection \<open>admin_update_appointment (app.py, 301-308)\<close>

definition admin_update_appointment :: "db \<Rightarrow> int \<Rightarrow> string option \<Rightarrow> response \<times> db" where
  "admin_update_appointment s aid st =
     (case find (\<lambda>x. a_id x = aid) (appointments s) of None \<Rightarrow> (Abort 404, s)
      | Some appointment \<Rightarrow>
          (Flash_Redirect ''Appointment status updated.'' ''success'' ''admin_dashboard'',
           s\<lparr>appointments :=
                map (\<lambda>x. if a_id x = a_id appointment
                          then x\<lparr>status := apply_status st (status appointment)\<rparr> else x)
                    (appointments s)\<rparr>))"

subsection \<open>update_appointment_status (app.py, 344-371)\<close>

definition update_appointment_status ::
  "db \<Rightarrow> int option \<Rightarrow> int \<Rightarrow> clinical_form \<Rightarrow> response \<times> db" where
  "update_appointment_status s doctor aid f =
     (case find (\<lambda>x. a_id x = aid) (appointments s) of None \<Rightarrow> (Abort 404, s)
      | Some appointment \<Rightarrow>
         (case doctor of None \<Rightarrow> (Raise ''AttributeError'', s) | Some did \<Rightarrow>
          if doctor_id appointment \<noteq> did then (Abort 403, s)
          else
           (let s1 = s\<lparr>appointments :=
                        map (\<lambda>x. if a_id x = a_id appointment
                                  then x\<lparr>status := apply_status (cf_status f) (status appointment)\<rparr>
                                  else x)
                            (appointments s)\<rparr>;
                ok = Flash_Redirect ''Appointment updated.'' ''success'' ''doctor_dashboard''
            in case find (\<lambda>n. appointment_id n = a_id appointment) (treatment_notes s) of
                 Some note \<Rightarrow>
                   (ok, s1\<lparr>treatment_notes :=
                            map (\<lambda>n. if n_id n = n_id note
                                      then n\<lparr>diagnosis := form_get (cf_diagnosis f) [],
                                             prescription := form_get (cf_prescription f) [],
                                             n_notes := form_get (cf_notes f) []\<rparr>
                                      else n)
                                (treatment_notes s)\<rparr>)
               | None \<Rightarrow>
                   (if list_ex (\<lambda>x. appointment_id x = a_id appointment) (treatment_notes s)
                    then (Raise ''IntegrityError'', s)
                    else (ok, s1\<lparr>treatment_notes := treatment_notes s @
                            [\<lparr>n_id = next_id (map n_id (treatment_notes s)),
                              appointment_id = a_id appointment,
                              diagnosis = form_get (cf_diagnosis f) [],
                              prescription = form_get (cf_prescription f) [],
                              n_notes = form_get (cf_notes f) []\<rparr>]\<rparr>)))))"

subsection \<open>toggle_doctor (app.py, 244-250)\<close>

definition toggle_doctor :: "db \<Rightarrow> int \<Rightarrow> response \<times> db" where
  "toggle_doctor s did =
     (case find (\<lambda>x. d_id x = did) (doctors s) of None \<Rightarrow> (Abort 404, s)
      | Some doctor \<Rightarrow>
         (case find (\<lambda>u. u_id u = d_user_id doctor) (users s) of
            None \<Rightarrow> (Raise ''AttributeError'', s)
          | Some usr \<Rightarrow>
             (Flash_Redirect ''Doctor status updated.'' ''info'' ''admin_dashboard'',
              s\<lparr>doctors :=
                   map (\<lambda>x. if d_id x = d_id doctor
                             then x\<lparr>d_is_active := \<not> d_is_active doctor\<rparr> else x) (doctors s),
                 users :=
                   map (\<lambda>u. if u_id u = u_id usr
                             then u\<lparr>u_is_active := \<not> d_is_active doctor\<rparr> else u) (users s)\<rparr>)))"

subsection \<open>Text of a form\<close>

text \<open>
  \<open>str.strip()\<close> and \<open>str.lower()\<close> on ASCII text: the white space of \<open>strip\<close> is the
  characters for which \<open>str.isspace\<close> holds (tab, line feed, vertical tab, form feed,
  carriage return, the separators 28 to 31, and the space), and \<open>lower\<close> maps A-Z to
  a-z. Text outside ASCII is not modelled.
\<close>

definition py_isspace :: "char \<Rightarrow> bool" where
  "py_isspace c \<longleftrightarrow> (of_char c :: nat) \<in> {9, 10, 11, 12, 13, 28, 29, 30, 31, 32}"

definition strip :: "string \<Rightarrow> string" where
  "strip t = rev (dropWhile py_isspace (rev (dropWhile py_isspace t)))"

definition lower :: "string \<Rightarrow> string" where
  "lower t =
     map (\<lambda>c. if 65 \<le> (of_char c :: nat) \<and> (of_char c :: nat) \<le> 90
               then char_of ((of_char c :: nat) + 32) else c) t"

text \<open>
  \<open>int(request.form.get(k))\<close>: a missing key gives \<open>int(None)\<close>, a TypeError.
\<close>

fun int_of_get :: "int field \<Rightarrow> response + int" where
  "int_of_get Missing = Inl (Raise ''TypeError'')"
| "int_of_get Malformed = Inl (Raise ''ValueError'')"
| "int_of_get (Parsed v) = Inr v"

record register_form =
  gf_full_name :: "string option"
  gf_email :: "string option"
  gf_password :: "string option"
  gf_phone :: "string option"

record doctor_form =
  df_full_name :: "string option"
  df_email :: "string option"
  df_phone :: "string option"
  df_specialization :: "string option"
  df_department_id :: "int field"
  df_room :: "string option"
  df_availability_summary :: "string option"
  df_password :: "string option"

record patient_form =
  pf_full_name :: "string option"
  pf_phone :: "string option"
  pf_address :: "string option"
  pf_blood_group :: "string option"
  pf_emergency_contact :: "string option"

text \<open>\<open>request.form.get(k, old)\<close> where the old value may be \<open>None\<close>.\<close>

fun form_get_opt :: "string option \<Rightarrow> string option \<Rightarrow> string option" where
  "form_get_opt None old = old"
| "form_get_opt (Some v) old = Some v"

subsection \<open>init_db (database.py, 171-201)\<close>

text \<open>
  \<open>generate_password_hash\<close> salts its result at random; the views that call it take
  it as the argument \<open>gen\<close>, the hash it returns for a password during the request.
\<close>

definition create_default_departments :: "(string \<times> string) list" where
  "create_default_departments =
     [(''Cardiology'', ''Heart and vascular care including diagnostics.''),
      (''Orthopedics'', ''Bone, joint and muscle treatments.''),
      (''Pediatrics'', ''Child and adolescent wellness.''),
      (''Dermatology'', ''Skin conditions and cosmetic care.''),
      (''General Medicine'', ''Primary and preventive care.'')]"

text \<open>
  \<open>db.session.add_all(rows)\<close> of new departments: each gets the next primary key.
\<close>

fun add_departments :: "department list \<Rightarrow> (string \<times> string) list \<Rightarrow> department list" where
  "add_departments rows [] = rows"
| "add_departments rows ((n, d) # ds) =
     add_departments
       (rows @ [\<lparr>dep_id = next_id (map dep_id rows), dep_name = n, description = d\<rparr>]) ds"

definition insert_user :: "db \<Rightarrow> user \<Rightarrow> (response + db)" where
  "insert_user s u =
     (if list_ex (\<lambda>x. email x = email u) (users s) then Inl (Raise ''IntegrityError'')
      else Inr (s\<lparr>users := users s @ [u]\<rparr>))"

text \<open>
  \<open>init_db\<close> commits the departments before it looks for an admin, so an exception at
  the second commit leaves them stored. It returns nothing; the result here is the
  exception it raises, if any, and the store it leaves.
\<close>

definition init_db :: "db \<Rightarrow> (string \<Rightarrow> string) \<Rightarrow> string option \<times> db" where
  "init_db s gen =
     (let s1 = (if length (departments s) = 0
                then s\<lparr>departments := add_departments (departments s) create_default_departments\<rparr>
                else s)
      in case find (\<lambda>u. role u = ''admin'') (users s1) of
           Some admin \<Rightarrow> (None, s1)
         | None \<Rightarrow>
            (case insert_user s1
                    \<lparr>u_id = next_id (map u_id (users s1)), full_name = ''Hospital Admin'',
                     email = ''admin@hms.local'', phone = ''0000000000'', role = ''admin'',
                     password_hash = gen ''Admin@123'', u_is_active = True\<rparr> of
               Inl e \<Rightarrow> (Some ''IntegrityError'', s1)
             | Inr s2 \<Rightarrow> (None, s2)))"

subsection \<open>register (app.py, 114-137)\<close>

definition register :: "db \<Rightarrow> (string \<Rightarrow> string) \<Rightarrow> http_method \<Rightarrow> register_form \<Rightarrow> response \<times> db" where
  "register s gen m f =
     (case m of GET \<Rightarrow> (Render ''register.html'', s) | POST \<Rightarrow>
      let full_name' = strip (form_get (gf_full_name f) []);
          email' = lower (strip (form_get (gf_email f) []));
          password = form_get (gf_password f) [];
          phone' = form_get (gf_phone f) []
      in case find (\<lambda>u. email u = email') (users s) of
           Some existing \<Rightarrow>
             (Flash_Redirect ''Email already registered.'' ''warning'' ''register'', s)
         | None \<Rightarrow>
            (case insert_user s
                    \<lparr>u_id = next_id (map u_id (users s)), full_name = full_name',
                     email = email', phone = phone', role = ''patient'',
                     password_hash = gen password, u_is_active = True\<rparr> of
               Inl e \<Rightarrow> (e, s)
             | Inr s1 \<Rightarrow>
                 if list_ex (\<lambda>p. p_user_id p = next_id (map u_id (users s))) (patients s)
                 then (Raise ''IntegrityError'', s)
                 else
                   (Flash_Redirect ''Registration successful. Please login.'' ''success''
                      ''login'',
                    s1\<lparr>patients := patients s @
                          [\<lparr>p_id = next_id (map p_id (patients s)),
                            p_user_id = next_id (map u_id (users s)), address = None,
                            blood_group = None, emergency_contact = None\<rparr>]\<rparr>)))"

subsection \<open>create_doctor (app.py, 207-238)\<close>

definition create_doctor :: "db \<Rightarrow> (string \<Rightarrow> string) \<Rightarrow> doctor_form \<Rightarrow> response \<times> db" where
  "create_doctor s gen f =
     (let full_name' = strip (form_get (df_full_name f) []);
          email' = lower (strip (form_get (df_email f) []));
          phone' = form_get (df_phone f) [];
          specialization' = strip (form_get (df_specialization f) [])
      in case int_of_get (df_department_id f) of Inl r \<Rightarrow> (r, s) | Inr department_id' \<Rightarrow>
         let room' = form_get (df_room f) [];
             availability_summary' = form_get (df_availability_summary f) [];
             password = form_get (df_password f) ''Doctor@123''
         in case find (\<lambda>u. email u = email') (users s) of
              Some existing \<Rightarrow>
                (Flash_Redirect ''Doctor email already exists.'' ''warning''
                   ''admin_dashboard'', s)
            | None \<Rightarrow>
               (case insert_user s
                       \<lparr>u_id = next_id (map u_id (users s)), full_name = full_name',
                        email = email', phone = phone', role = ''doctor'',
                        password_hash = gen password, u_is_active = True\<rparr> of
                  Inl e \<Rightarrow> (e, s)
                | Inr s1 \<Rightarrow>
                    if list_ex (\<lambda>d. d_user_id d = next_id (map u_id (users s))) (doctors s)
                    then (Raise ''IntegrityError'', s)
                    else
                      (Flash_Redirect ''Doctor profile created.'' ''success''
                         ''admin_dashboard'',
                       s1\<lparr>doctors := doctors s @
                             [\<lparr>d_id = next_id (map d_id (doctors s)),
                               d_user_id = next_id (map u_id (users s)),
                               d_department_id = department_id',
                               specialization = specialization', room = room',
                               availability_summary = availability_summary',
                               d_is_active = True\<rparr>]\<rparr>)))"

subsection \<open>update_doctor (app.py, 256-270)\<close>

text \<open>
  The field \<open>df_department_id\<close> is \<open>Missing\<close> here when the key is absent or its text
  is empty: the view converts it only \<open>if department_value\<close>.
\<close>

definition update_doctor :: "db \<Rightarrow> int \<Rightarrow> doctor_form \<Rightarrow> response \<times> db" where
  "update_doctor s did f =
     (case find (\<lambda>x. d_id x = did) (doctors s) of None \<Rightarrow> (Abort 404, s)
      | Some doctor \<Rightarrow>
         (case find (\<lambda>u. u_id u = d_user_id doctor) (users s) of
            None \<Rightarrow> (Raise ''AttributeError'', s)
          | Some usr \<Rightarrow>
             (case (case df_department_id f of
                      Missing \<Rightarrow> Inr (d_department_id doctor)
                    | Malformed \<Rightarrow> Inl (Raise ''ValueError'')
                    | Parsed v \<Rightarrow> Inr v) of
                Inl r \<Rightarrow> (r, s)
              | Inr department_id' \<Rightarrow>
                 (Flash_Redirect ''Doctor profile updated.'' ''success'' ''admin_dashboard'',
                  s\<lparr>users :=
                       map (\<lambda>u. if u_id u = u_id usr
                                 then u\<lparr>full_name := form_get (df_full_name f) (full_name usr),
                                        phone := form_get (df_phone f) (phone usr)\<rparr>
                                 else u) (users s),
                     doctors :=
                       map (\<lambda>x. if d_id x = d_id doctor
                                 then x\<lparr>specialization :=
                                          form_get (df_specialization f) (specialization doctor),
                                        d_department_id := department_id',
                                        room := form_get (df_room f) (room doctor),
                                        availability_summary :=
                                          form_get (df_availability_summary f)
                                            (availability_summary doctor)\<rparr>
                                 else x) (doctors s)\<rparr>))))"

subsection \<open>admin_update_patient (app.py, 276-284) and patient_profile (app.py, 478-491)\<close>

definition admin_update_patient :: "db \<Rightarrow> int \<Rightarrow> patient_form \<Rightarrow> response \<times> db" where
  "admin_update_patient s pid f =
     (case find (\<lambda>x. p_id x = pid) (patients s) of None \<Rightarrow> (Abort 404, s)
      | Some patient \<Rightarrow>
         (case find (\<lambda>u. u_id u = p_user_id patient) (users s) of
            None \<Rightarrow> (Raise ''AttributeError'', s)
          | Some usr \<Rightarrow>
             (Flash_Redirect ''Patient information updated.'' ''success'' ''admin_dashboard'',
              s\<lparr>users :=
                   map (\<lambda>u. if u_id u = u_id usr
                             then u\<lparr>full_name := form_get (pf_full_name f) (full_name usr),
                                    phone := form_get (pf_phone f) (phone usr)\<rparr>
                             else u) (users s),
                 patients :=
                   map (\<lambda>x. if p_id x = p_id patient
                             then x\<lparr>address := form_get_opt (pf_address f) (address patient),
                                    blood_group :=
                                      form_get_opt (pf_blood_group f) (blood_group patient)\<rparr>
                             else x) (patients s)\<rparr>)))"

definition patient_profile ::
  "db \<Rightarrow> int option \<Rightarrow> http_method \<Rightarrow> patient_form \<Rightarrow> response \<times> db" where
  "patient_profile s prof m f =
     (case m of GET \<Rightarrow> (Render ''patient_profile.html'', s) | POST \<Rightarrow>
      case (case prof of None \<Rightarrow> None | Some pid \<Rightarrow> find (\<lambda>x. p_id x = pid) (patients s)) of
        None \<Rightarrow> (Raise ''AttributeError'', s)
      | Some patient \<Rightarrow>
         (case find (\<lambda>u. u_id u = p_user_id patient) (users s) of
            None \<Rightarrow> (Raise ''AttributeError'', s)
          | Some usr \<Rightarrow>
             (Flash_Redirect ''Profile updated.'' ''success'' ''patient_profile'',
              s\<lparr>users :=
                   map (\<lambda>u. if u_id u = u_id usr
                             then u\<lparr>full_name := form_get (pf_full_name f) (full_name usr),
                                    phone := form_get (pf_phone f) (phone usr)\<rparr>
                             else u) (users s),
                 patients :=
                   map (\<lambda>x. if p_id x = p_id patient
                             then x\<lparr>address := form_get_opt (pf_address f) (address patient),
                                    blood_group :=
                                      form_get_opt (pf_blood_group f) (blood_group patient),
                                    emergency_contact :=
                                      form_get_opt (pf_emergency_contact f)
                                        (emergency_contact patient)\<rparr>
                             else x) (patients s)\<rparr>)))"

subsection \<open>toggle_patient (app.py, 290-295)\<close>

definition toggle_patient :: "db \<Rightarrow> int \<Rightarrow> response \<times> db" where
  "toggle_patient s pid =
     (case find (\<lambda>x. p_id x = pid) (patients s) of None \<Rightarrow> (Abort 404, s)
      | Some patient \<Rightarrow>
         (case find (\<lambda>u. u_id u = p_user_id patient) (users s) of
            None \<Rightarrow> (Raise ''AttributeError'', s)
          | Some usr \<Rightarrow>
             (Flash_Redirect ''Patient status updated.'' ''info'' ''admin_dashboard'',
              s\<lparr>users :=
                   map (\<lambda>u. if u_id u = u_id usr
                             then u\<lparr>u_is_active := \<not> u_is_active usr\<rparr> else u) (users s)\<rparr>)))"

section \<open>The application as a whole\<close>

text \<open>
  Every request that writes the store, with the arguments its view takes, and the stores
  the application can be in: the empty tables that \<open>db.create_all()\<close> makes, and the
  store any request leaves. \<open>init_db\<close> runs when the application starts. The views
  that only read (the dashboards, the search, login and logout) are left out.
\<close>

datatype request =
    Init_Db "string \<Rightarrow> string"
  | Register "string \<Rightarrow> string" http_method register_form
  | Create_Doctor "string \<Rightarrow> string" doctor_form
  | Toggle_Doctor int
  | Update_Doctor int doctor_form
  | Admin_Update_Patient int patient_form
  | Toggle_Patient int
  | Admin_Update_Appointment int "string option"
  | Update_Appointment_Status "int option" int clinical_form
  | Update_Availability "int option" date availability_form
  | Patient_Profile "int option" http_method patient_form
  | Book_Appointment "int option" http_method book_form
  | Cancel_Appointment "int option" int
  | Reschedule_Appointment "int option" int reschedule_form

fun handle :: "db \<Rightarrow> request \<Rightarrow> db" where
  "handle s (Init_Db gen) = snd (init_db s gen)"
| "handle s (Register gen m f) = snd (register s gen m f)"
| "handle s (Create_Doctor gen f) = snd (create_doctor s gen f)"
| "handle s (Toggle_Doctor did) = snd (toggle_doctor s did)"
| "handle s (Update_Doctor did f) = snd (update_doctor s did f)"
| "handle s (Admin_Update_Patient pid f) = snd (admin_update_patient s pid f)"
| "handle s (Toggle_Patient pid) = snd (toggle_patient s pid)"
| "handle s (Admin_Update_Appointment aid st) = snd (admin_update_appointment s aid st)"
| "handle s (Update_Appointment_Status doc aid f) = snd (update_appointment_status s doc aid f)"
| "handle s (Update_Availability doc today f) = snd (update_availability s doc today f)"
| "handle s (Patient_Profile prof m f) = snd (patient_profile s prof m f)"
| "handle s (Book_Appointment prof m f) = snd (book_appointment s prof m f)"
| "handle s (Cancel_Appointment prof aid) = snd (cancel_appointment s prof aid)"
| "handle s (Reschedule_Appointment prof aid f) = snd (reschedule_appointment s prof aid f)"

inductive reachable :: "db \<Rightarrow> bool" where
  created: "reachable \<lparr>users = [], doctors = [], patients = [], departments = [],
                       availabilities = [], appointments = [], treatment_notes = []\<rparr>"
| request: "reachable s \<Longrightarrow> reachable (handle s r)"

section \<open>Constraints of the schema and example data\<close>

text \<open>
  The unique constraints as predicates on a table: \<open>uniq_doctor_slot\<close> of
  appointments, and \<open>uniq_doctor_date_availability\<close> of doctor_availability together
  with its primary key.
\<close>

definition slot_key :: "appointment \<Rightarrow> int \<times> date \<times> time_of_day" where
  "slot_key x = (doctor_id x, appointment_date x, appointment_time x)"

definition uniq_doctor_slot :: "appointment list \<Rightarrow> bool" where
  "uniq_doctor_slot rows \<longleftrightarrow> distinct (map slot_key rows)"

definition avail_key :: "doctor_availability \<Rightarrow> int \<times> date" where
  "avail_key x = (av_doctor_id x, available_date x)"

definition uniq_doctor_date_availability :: "doctor_availability list \<Rightarrow> bool" where
  "uniq_doctor_date_availability rows \<longleftrightarrow>
     distinct (map av_id rows) \<and> distinct (map avail_key rows)"

text \<open>
  A store for the examples: doctor 1 (user 1) with one cancelled appointment on
  2024-06-10 (day 739047) at 10:00, its treatment note, and an availability on that day.
\<close>

definition db0 :: db where
  "db0 = \<lparr>users = [], doctors = [], patients = [], departments = [],
          availabilities = [], appointments = [],
          treatment_notes = []\<rparr>"

definition appt1 :: appointment where
  "appt1 = \<lparr>a_id = 1, patient_id = 1, doctor_id = 1, department_id = 1,
            appointment_date = 739047, appointment_time = (10, 0), status = CANCELLED,
            reason = ''Fever''\<rparr>"

definition db1 :: db where
  "db1 = db0\<lparr>appointments := [appt1]\<rparr>"

definition book_form1 :: book_form where
  "book_form1 = \<lparr>bf_doctor_id = Parsed 1, bf_department_id = Parsed 1,
                 bf_appointment_date = Parsed 739047, bf_appointment_time = Parsed (10, 0),
                 bf_reason = Some ''Checkup''\<rparr>"

definition user1 :: user where
  "user1 = \<lparr>u_id = 1, full_name = ''Asha Rao'', email = ''asha@hms.local'', phone = ''100'',
            role = ''doctor'', password_hash = ''x'', u_is_active = False\<rparr>"

definition doctor1 :: doctor where
  "doctor1 = \<lparr>d_id = 1, d_user_id = 1, d_department_id = 1, specialization = ''Cardiology'',
              room = ''12'', availability_summary = ''Mon-Fri'', d_is_active = False\<rparr>"

definition avail1 :: doctor_availability where
  "avail1 = \<lparr>av_id = 1, av_doctor_id = 1, available_date = 739048, start_time = (9, 0),
             end_time = (12, 0)\<rparr>"

definition availability_form1 :: availability_form where
  "availability_form1 = \<lparr>af_date = Parsed 739048, af_start_time = Parsed (13, 0),
                         af_end_time = Parsed (17, 0)\<rparr>"

definition reschedule_form1 :: reschedule_form where
  "reschedule_form1 = \<lparr>rf_appointment_date = Parsed 739047,
                        rf_appointment_time = Parsed (10, 0)\<rparr>"

definition appt2 :: appointment where
  "appt2 = \<lparr>a_id = 2, patient_id = 1, doctor_id = 1, department_id = 1,
            appointment_date = 739048, appointment_time = (11, 0), status = COMPLETED,
            reason = ''Review''\<rparr>"

definition db2 :: db where
  "db2 = db0\<lparr>appointments := [appt1, appt2]\<rparr>"

definition reschedule_form2 :: reschedule_form where
  "reschedule_form2 = \<lparr>rf_appointment_date = Parsed 739049,
                        rf_appointment_time = Parsed (9, 30)\<rparr>"

definition availability_form0 :: availability_form where
  "availability_form0 = \<lparr>af_date = Parsed 739048, af_start_time = Parsed (9, 0),
                         af_end_time = Parsed (12, 0)\<rparr>"

text \<open>
  A sequence of update_availability requests, each with the doctor who sends it, the day
  it is sent on and its form, run one after the other on the store.
\<close>

type_synonym availability_call = "int \<times> date \<times> availability_form"

fun update_availability_all :: "db \<Rightarrow> availability_call list \<Rightarrow> db" where
  "update_availability_all s [] = s"
| "update_availability_all s ((did, today, f) # cs) =
     update_availability_all (snd (update_availability s (Some did) today f)) cs"

text \<open>
  The times a request saves for doctor \<open>did\<close> and date \<open>d\<close>: those of its form, when
  the form converts, its date is in the window of its day, and it is for that doctor and
  date. \<open>last_saved_times\<close> is the value of the last such request of a sequence.
\<close>

fun saved_times ::
  "availability_call \<Rightarrow> int \<Rightarrow> date \<Rightarrow> (time_of_day \<times> time_of_day) option" where
  "saved_times (did', today, f) did d =
     (case (af_date f, af_start_time f, af_end_time f) of
        (Parsed d', Parsed st, Parsed en) \<Rightarrow>
          if today \<le> d' \<and> d' \<le> today + 7 \<and> did' = did \<and> d' = d then Some (st, en) else None
      | _ \<Rightarrow> None)"

fun last_saved_times ::
  "availability_call list \<Rightarrow> int \<Rightarrow> date \<Rightarrow> (time_of_day \<times> time_of_day) option" where
  "last_saved_times [] did d = None"
| "last_saved_times (c # cs) did d =
     (case last_saved_times cs did d of Some t \<Rightarrow> Some t | None \<Rightarrow> saved_times c did d)"

text \<open>The start and end times of the availability rows of a doctor and date.\<close>

definition times_for :: "db \<Rightarrow> int \<Rightarrow> date \<Rightarrow> (time_of_day \<times> time_of_day) list" where
  "times_for s did d =
     map (\<lambda>x. (start_time x, end_time x)) (filter (\<lambda>x. same_day x did d) (availabilities s))"

definition note1 :: treatment_note where
  "note1 = \<lparr>n_id = 1, appointment_id = 2, diagnosis = ''Flu'', prescription = ''Rest'',
            n_notes = ''Review in a week''\<rparr>"

definition db3 :: db where
  "db3 = db0\<lparr>appointments := [appt1, appt2], treatment_notes := [note1]\<rparr>"

definition clinical_form1 :: clinical_form where
  "clinical_form1 = \<lparr>cf_status = Some ''BOOKED'', cf_diagnosis = Some [],
                     cf_prescription = Some [], cf_notes = None\<rparr>"

definition clinical_form2 :: clinical_form where
  "clinical_form2 = \<lparr>cf_status = Some ''Completed'', cf_diagnosis = Some ''Cold'',
                     cf_prescription = None, cf_notes = None\<rparr>"

text \<open>
  How the users, doctors and patients tables hang together in every store the
  application reaches: doctors have distinct ids and distinct users, every profile's
  user exists, no user has both a doctor and a patient profile, and a doctor's active
  flag equals the one of its user.
\<close>

definition linked :: "db \<Rightarrow> bool" where
  "linked s \<longleftrightarrow>
     distinct (map d_id (doctors s)) \<and> distinct (map d_user_id (doctors s))
     \<and> set (map d_user_id (doctors s)) \<subseteq> set (map u_id (users s))
     \<and> set (map p_user_id (patients s)) \<subseteq> set (map u_id (users s))
     \<and> set (map d_user_id (doctors s)) \<inter> set (map p_user_id (patients s)) = {}
     \<and> (\<forall>d\<in>set (doctors s). \<forall>u\<in>set (users s).
           u_id u = d_user_id d \<longrightarrow> u_is_active u = d_is_active d)"

definition gen0 :: "string \<Rightarrow> string" where
  "gen0 pw = ''pbkdf2:sha256''"

definition doctor_form1 :: doctor_form where
  "doctor_form1 = \<lparr>df_full_name = Some '' Asha Rao'', df_email = Some ''asha@hms.local '',
                   df_phone = Some ''100'', df_specialization = Some ''Cardiology'',
                   df_department_id = Parsed 1, df_room = Some ''12'',
                   df_availability_summary = None, df_password = None\<rparr>"

definition user2 :: user where
  "user2 = \<lparr>u_id = 1, full_name = ''Asha Rao'', email = ''asha@hms.local'', phone = ''100'',
            role = ''doctor'', password_hash = ''pbkdf2:sha256'', u_is_active = True\<rparr>"

definition doctor2 :: doctor where
  "doctor2 = \<lparr>d_id = 1, d_user_id = 1, d_department_id = 1, specialization = ''Cardiology'',
              room = ''12'', availability_summary = [], d_is_active = True\<rparr>"

definition db4 :: db where
  "db4 = db0\<lparr>users := [user2], doctors := [doctor2]\<rparr>"

section \<open>Booking\<close>

text \<open>
  An id of the form beyond the INTEGER range: the view raises OverflowError, for the
  doctor id at the conflict query, for the department id when the row is written (so
  only when the slot is free), and stores nothing.
\<close>

lemma book_overflow:
  assumes "bf_doctor_id f = Parsed did" and "bf_department_id f = Parsed dep"
    and "bf_appointment_date f = Parsed d" and "bf_appointment_time f = Parsed t"
    and "\<not> sqlite_integer did \<or>
         (\<not> sqlite_integer dep \<and> (\<forall>x\<in>set (appointments s). \<not> same_slot x did d t))"
  shows "book_appointment s (Some pid) POST f = (Raise ''OverflowError'', s)"
proof (cases "sqlite_integer did")
  case False
  with assms(1-4) show ?thesis by (simp add: book_appointment_def)
next
  case True
  with assms(5) have dep: "\<not> sqlite_integer dep"
    and "\<forall>x\<in>set (appointments s). \<not> same_slot x did d t" by auto
  then have "find (\<lambda>x. same_slot x did d t) (appointments s) = None"
    by (simp add: find_None_iff)
  with True dep assms(1-4) show ?thesis by (simp add: book_appointment_def)
qed

lemma book_overflow_example:
  "book_appointment db0 (Some 2) POST (book_form1\<lparr>bf_doctor_id := Parsed (2 ^ 63)\<rparr>) =
     (Raise ''OverflowError'', db0)
   \<and> book_appointment db0 (Some 2) POST (book_form1\<lparr>bf_department_id := Parsed (2 ^ 63)\<rparr>) =
     (Raise ''OverflowError'', db0)
   \<and> book_appointment db1 (Some 2) POST (book_form1\<lparr>bf_department_id := Parsed (2 ^ 63)\<rparr>) =
     (Flash_Redirect ''Slot already booked. Pick another time.'' ''danger''
        ''book_appointment'', db1)"
  by (simp add: book_appointment_def book_form1_def db0_def db1_def appt1_def
      sqlite_integer_def same_slot_def)

text \<open>
  C1. A booking request (POST, all four converted fields present, the doctor id and the
  department id INTEGERs of the database) by a patient with profile id \<open>pid\<close>: if some
  appointment row, whatever its status, has the requested doctor, date and time, the view
  flashes "Slot already booked" (the conflict error) and returns the store as it was;
  otherwise the store gains exactly one appointment row, for that patient and slot, with
  status BOOKED.
\<close>

theorem book_conflict_or_created:
  assumes "bf_doctor_id f = Parsed did" and "bf_department_id f = Parsed dep"
    and "bf_appointment_date f = Parsed d" and "bf_appointment_time f = Parsed t"
    and "sqlite_integer did" and "sqlite_integer dep"
  shows "book_appointment s (Some pid) POST f =
     (if \<exists>x\<in>set (appointments s).
           doctor_id x = did \<and> appointment_date x = d \<and> appointment_time x = t
      then (Flash_Redirect ''Slot already booked. Pick another time.'' ''danger''
              ''book_appointment'', s)
      else (Flash_Redirect ''Appointment booked successfully.'' ''success''
              ''patient_dashboard'',
            s\<lparr>appointments := appointments s @
               [\<lparr>a_id = next_id (map a_id (appointments s)), patient_id = pid,
                 doctor_id = did, department_id = dep, appointment_date = d,
                 appointment_time = t, status = BOOKED,
                 reason = form_get (bf_reason f) []\<rparr>]\<rparr>))"
proof (cases "find (\<lambda>x. same_slot x did d t) (appointments s)")
  case None
  then have no: "\<not> (\<exists>x\<in>set (appointments s). same_slot x did d t)"
    by (simp add: find_None_iff)
  then have "\<not> list_ex (\<lambda>x. same_slot x did d t) (appointments s)"
    by (simp add: list_ex_iff)
  with None no assms show ?thesis
    by (simp add: book_appointment_def insert_appointment_def same_slot_def)
next
  case (Some e)
  then have "\<exists>x\<in>set (appointments s). same_slot x did d t"
    by (auto simp: find_Some_iff)
  with Some assms show ?thesis
    by (simp add: book_appointment_def same_slot_def)
qed

theorem book_conflict_or_created_witness:
  "sqlite_integer 1
   \<and> book_appointment db1 (Some 2) POST book_form1 =
     (Flash_Redirect ''Slot already booked. Pick another time.'' ''danger''
        ''book_appointment'', db1)
   \<and> status appt1 = CANCELLED
   \<and> book_appointment db0 (Some 2) POST book_form1 =
     (Flash_Redirect ''Appointment booked successfully.'' ''success'' ''patient_dashboard'',
      db0\<lparr>appointments :=
            [\<lparr>a_id = 1, patient_id = 2, doctor_id = 1, department_id = 1,
              appointment_date = 739047, appointment_time = (10, 0), status = BOOKED,
              reason = ''Checkup''\<rparr>]\<rparr>)"
  using book_conflict_or_created [of book_form1 1 1 739047 "(10, 0)" db1 2]
    book_conflict_or_created [of book_form1 1 1 739047 "(10, 0)" db0 2]
  by (simp add: book_form1_def db1_def db0_def appt1_def next_id_def sqlite_integer_def)

text \<open>
  C10. The booking reads neither the users, nor the doctors, nor the availability table:
  whatever these tables hold (no row for the doctor, a deactivated doctor, no availability
  at all), a request for a slot that no appointment row occupies is booked, for every
  doctor id and department id that are INTEGERs of the database.
\<close>

theorem book_ignores_doctor_state:
  assumes "bf_doctor_id f = Parsed did" and "bf_department_id f = Parsed dep"
    and "bf_appointment_date f = Parsed d" and "bf_appointment_time f = Parsed t"
    and "sqlite_integer did" and "sqlite_integer dep"
    and "\<forall>x\<in>set (appointments s). \<not> same_slot x did d t"
  shows "book_appointment (s\<lparr>users := us, doctors := ds, availabilities := avs\<rparr>)
           (Some pid) POST f =
      (Flash_Redirect ''Appointment booked successfully.'' ''success'' ''patient_dashboard'',
       s\<lparr>users := us, doctors := ds, availabilities := avs,
          appointments := appointments s @
               [\<lparr>a_id = next_id (map a_id (appointments s)), patient_id = pid,
                 doctor_id = did, department_id = dep, appointment_date = d,
                 appointment_time = t, status = BOOKED,
                 reason = form_get (bf_reason f) []\<rparr>]\<rparr>)"
proof -
  from assms(7) have "find (\<lambda>x. same_slot x did d t) (appointments s) = None"
    by (simp add: find_None_iff)
  moreover from assms(7) have "\<not> list_ex (\<lambda>x. same_slot x did d t) (appointments s)"
    by (simp add: list_ex_iff)
  ultimately show ?thesis using assms(1-6)
    by (simp add: book_appointment_def insert_appointment_def)
qed

theorem book_ignores_doctor_state_witness:
  "appointments db0 = []
   \<and> sqlite_integer 1
   \<and> d_is_active doctor1 = False
   \<and> fst (book_appointment (db0\<lparr>users := [user1], doctors := [doctor1], availabilities := []\<rparr>)
           (Some 2) POST book_form1) =
       Flash_Redirect ''Appointment booked successfully.'' ''success'' ''patient_dashboard''
   \<and> fst (book_appointment (db0\<lparr>users := [], doctors := [], availabilities := []\<rparr>)
           (Some 2) POST book_form1) =
       Flash_Redirect ''Appointment booked successfully.'' ''success'' ''patient_dashboard''"
  using book_ignores_doctor_state [where f = book_form1 and did = 1 and dep = 1 and d = 739047
      and t = "(10, 0)" and s = db0 and us = "[user1]" and ds = "[doctor1]" and avs = "[]"
      and pid = 2]
    book_ignores_doctor_state [where f = book_form1 and did = 1 and dep = 1 and d = 739047
      and t = "(10, 0)" and s = db0 and us = "[]" and ds = "[]" and avs = "[]" and pid = 2]
  by (simp add: book_form1_def db0_def doctor1_def sqlite_integer_def)

section \<open>Availability\<close>

text \<open>
  C2. With the three fields of the form converted, update_availability answers with the
  warning "Select a date within the next 7 days." (the out-of-window error) exactly when
  the date is not in the window from today to today + 7 days, both ends included, and then
  the store it returns is the store it was given.
\<close>

theorem availability_window:
  assumes "af_date f = Parsed d" and "af_start_time f = Parsed st"
    and "af_end_time f = Parsed en"
  shows "((fst (update_availability s doctor today f) =
            Flash_Redirect ''Select a date within the next 7 days.'' ''warning''
              ''doctor_dashboard'')
          \<longleftrightarrow> \<not> (today \<le> d \<and> d \<le> today + 7))
       \<and> (\<not> (today \<le> d \<and> d \<le> today + 7)
            \<longrightarrow> snd (update_availability s doctor today f) = s)"
  using assms
  by (auto simp: update_availability_def insert_availability_def split: option.splits)

theorem availability_window_witness:
  "update_availability (db0\<lparr>availabilities := [avail1]\<rparr>) (Some 1) 739040 availability_form1 =
     (Flash_Redirect ''Select a date within the next 7 days.'' ''warning'' ''doctor_dashboard'',
      db0\<lparr>availabilities := [avail1]\<rparr>)
   \<and> update_availability (db0\<lparr>availabilities := [avail1]\<rparr>) (Some 1) 739049 availability_form1 =
     (Flash_Redirect ''Select a date within the next 7 days.'' ''warning'' ''doctor_dashboard'',
      db0\<lparr>availabilities := [avail1]\<rparr>)
   \<and> fst (update_availability (db0\<lparr>availabilities := [avail1]\<rparr>) (Some 1) 739041
            availability_form1) \<noteq>
      Flash_Redirect ''Select a date within the next 7 days.'' ''warning'' ''doctor_dashboard''
   \<and> fst (update_availability (db0\<lparr>availabilities := [avail1]\<rparr>) (Some 1) 739048
            availability_form1) \<noteq>
      Flash_Redirect ''Select a date within the next 7 days.'' ''warning'' ''doctor_dashboard''"
  using availability_window [where f = availability_form1 and d = 739048 and st = "(13, 0)"
      and en = "(17, 0)" and s = "db0\<lparr>availabilities := [avail1]\<rparr>" and doctor = "Some 1"
      and today = 739040]
    availability_window [where f = availability_form1 and d = 739048 and st = "(13, 0)"
      and en = "(17, 0)" and s = "db0\<lparr>availabilities := [avail1]\<rparr>" and doctor = "Some 1"
      and today = 739049]
    availability_window [where f = availability_form1 and d = 739048 and st = "(13, 0)"
      and en = "(17, 0)" and s = "db0\<lparr>availabilities := [avail1]\<rparr>" and doctor = "Some 1"
      and today = 739041]
    availability_window [where f = availability_form1 and d = 739048 and st = "(13, 0)"
      and en = "(17, 0)" and s = "db0\<lparr>availabilities := [avail1]\<rparr>" and doctor = "Some 1"
      and today = 739048]
  by (simp add: availability_form1_def prod_eq_iff)

section \<open>Cancelling and rescheduling\<close>

lemma find_SomeD: "find P xs = Some c \<Longrightarrow> c \<in> set xs \<and> P c"
  by (induction xs) (auto split: if_splits)

lemma find_upd:
  assumes "\<And>x. k (g x) = k x"
  shows "find (\<lambda>x. k x = i) (map (\<lambda>x. if k x = i then g x else x) xs) =
         map_option g (find (\<lambda>x. k x = i) xs)"
  using assms by (induction xs) auto

lemma find_upd_const:
  "k r = i \<Longrightarrow> find (\<lambda>x. k x = i) (map (\<lambda>x. if k x = i then r else x) xs)
     = map_option (\<lambda>_. r) (find (\<lambda>x. k x = i) xs)"
  by (induction xs) auto

lemma uniq_slot_same:
  assumes "uniq_doctor_slot rows" "x \<in> set rows" "y \<in> set rows" "slot_key x = slot_key y"
  shows "x = y"
  using assms unfolding uniq_doctor_slot_def
  by (meson distinct_map inj_onD)

text \<open>
  C6. For an appointment \<open>a\<close> that exists and a requesting patient \<open>pid\<close>, cancel
  aborts with 403 exactly when \<open>a\<close> belongs to another patient, and then the store is
  returned as it was. For the owner it succeeds whatever the status of \<open>a\<close> was, the
  stored appointment is \<open>a\<close> with status CANCELLED, and cancelling again gives the same
  response and the same store.
\<close>

theorem cancel_owner_only:
  assumes "find (\<lambda>x. a_id x = aid) (appointments s) = Some a"
  shows "((fst (cancel_appointment s (Some pid) aid) = Abort 403) \<longleftrightarrow> patient_id a \<noteq> pid)
     \<and> (patient_id a \<noteq> pid \<longrightarrow> cancel_appointment s (Some pid) aid = (Abort 403, s))
     \<and> (patient_id a = pid \<longrightarrow>
          cancel_appointment s (Some pid) aid =
            (Flash_Redirect ''Appointment cancelled.'' ''info'' ''patient_dashboard'',
             s\<lparr>appointments :=
                  map (\<lambda>x. if a_id x = aid then x\<lparr>status := CANCELLED\<rparr> else x)
                    (appointments s)\<rparr>)
        \<and> find (\<lambda>x. a_id x = aid) (appointments (snd (cancel_appointment s (Some pid) aid)))
            = Some (a\<lparr>status := CANCELLED\<rparr>)
        \<and> cancel_appointment (snd (cancel_appointment s (Some pid) aid)) (Some pid) aid
            = cancel_appointment s (Some pid) aid)"
proof -
  from assms have aid: "a_id a = aid" by (auto dest: find_SomeD)
  have forbidden: "(fst (cancel_appointment s (Some pid) aid) = Abort 403) = (patient_id a \<noteq> pid)"
    using assms by (simp add: cancel_appointment_def)
  have refused: "cancel_appointment s (Some pid) aid = (Abort 403, s)"
    if "patient_id a \<noteq> pid"
    using assms that by (simp add: cancel_appointment_def)
  have owner: "cancel_appointment s (Some pid) aid =
            (Flash_Redirect ''Appointment cancelled.'' ''info'' ''patient_dashboard'',
             s\<lparr>appointments :=
                  map (\<lambda>x. if a_id x = aid then x\<lparr>status := CANCELLED\<rparr> else x)
                    (appointments s)\<rparr>)
        \<and> find (\<lambda>x. a_id x = aid) (appointments (snd (cancel_appointment s (Some pid) aid)))
            = Some (a\<lparr>status := CANCELLED\<rparr>)
        \<and> cancel_appointment (snd (cancel_appointment s (Some pid) aid)) (Some pid) aid
            = cancel_appointment s (Some pid) aid"
    if own: "patient_id a = pid"
  proof -
    have c1: "cancel_appointment s (Some pid) aid =
        (Flash_Redirect ''Appointment cancelled.'' ''info'' ''patient_dashboard'',
         s\<lparr>appointments :=
              map (\<lambda>x. if a_id x = aid then x\<lparr>status := CANCELLED\<rparr> else x)
                (appointments s)\<rparr>)"
      using assms own aid by (simp add: cancel_appointment_def)
    have f2: "find (\<lambda>x. a_id x = aid)
                (map (\<lambda>x. if a_id x = aid then x\<lparr>status := CANCELLED\<rparr> else x) (appointments s))
              = Some (a\<lparr>status := CANCELLED\<rparr>)"
      using assms by (simp add: find_upd)
    have c2: "cancel_appointment (snd (cancel_appointment s (Some pid) aid)) (Some pid) aid
            = cancel_appointment s (Some pid) aid"
      unfolding c1 using f2 own aid
      by (simp add: cancel_appointment_def o_def cong: if_cong)
    from c1 f2 c2 show ?thesis by simp
  qed
  show ?thesis
  proof (intro conjI impI)
    show "(fst (cancel_appointment s (Some pid) aid) = Abort 403) \<longleftrightarrow> patient_id a \<noteq> pid"
      by (rule forbidden)
  qed (use refused owner in blast)+
qed

theorem cancel_owner_only_witness:
  "cancel_appointment db2 (Some 7) 2 = (Abort 403, db2)
   \<and> status appt2 = COMPLETED
   \<and> fst (cancel_appointment db2 (Some 1) 2) =
       Flash_Redirect ''Appointment cancelled.'' ''info'' ''patient_dashboard''
   \<and> find (\<lambda>x. a_id x = 2) (appointments (snd (cancel_appointment db2 (Some 1) 2)))
       = Some (appt2\<lparr>status := CANCELLED\<rparr>)
   \<and> cancel_appointment (snd (cancel_appointment db2 (Some 1) 2)) (Some 1) 2
       = cancel_appointment db2 (Some 1) 2"
proof -
  have h: "find (\<lambda>x. a_id x = 2) (appointments db2) = Some appt2"
    by (simp add: db2_def appt1_def appt2_def)
  have other: "patient_id appt2 \<noteq> 7" and own: "patient_id appt2 = 1"
    by (simp_all add: appt2_def)
  from cancel_owner_only [OF h, of 7] other
  have "cancel_appointment db2 (Some 7) 2 = (Abort 403, db2)" by blast
  moreover from cancel_owner_only [OF h, of 1] own
  have "cancel_appointment db2 (Some 1) 2 =
          (Flash_Redirect ''Appointment cancelled.'' ''info'' ''patient_dashboard'',
           db2\<lparr>appointments :=
                 map (\<lambda>x. if a_id x = 2 then x\<lparr>status := CANCELLED\<rparr> else x)
                   (appointments db2)\<rparr>)"
    and "find (\<lambda>x. a_id x = 2) (appointments (snd (cancel_appointment db2 (Some 1) 2)))
          = Some (appt2\<lparr>status := CANCELLED\<rparr>)"
    and "cancel_appointment (snd (cancel_appointment db2 (Some 1) 2)) (Some 1) 2
          = cancel_appointment db2 (Some 1) 2"
    by blast+
  moreover have "status appt2 = COMPLETED" by (simp add: appt2_def)
  ultimately show ?thesis by simp
qed

text \<open>
  C4. For an appointment \<open>a\<close> of the requesting patient and a converted new date and
  time, in a store that satisfies the slot constraint of the schema, reschedule answers
  "Selected slot is unavailable." (the conflict error) exactly when a row with another id
  has the doctor of \<open>a\<close> and the new date and time, and it then returns the store as it
  was; in every other case it succeeds and rewrites only the row of \<open>a\<close>.
  Rescheduling \<open>a\<close> to the date and time it already has succeeds.
\<close>

theorem reschedule_conflict_iff:
  assumes "uniq_doctor_slot (appointments s)"
    and "find (\<lambda>x. a_id x = aid) (appointments s) = Some a"
    and "patient_id a = pid"
    and "rf_appointment_date f = Parsed nd" and "rf_appointment_time f = Parsed nt"
  shows "reschedule_appointment s (Some pid) aid f =
      (if \<exists>x\<in>set (appointments s). a_id x \<noteq> a_id a \<and> doctor_id x = doctor_id a \<and>
                 appointment_date x = nd \<and> appointment_time x = nt
       then (Flash_Redirect ''Selected slot is unavailable.'' ''danger''
               ''patient_dashboard'', s)
       else (Flash_Redirect ''Appointment rescheduled.'' ''success'' ''patient_dashboard'',
         s\<lparr>appointments := map (\<lambda>x. if a_id x = aid then a\<lparr>appointment_date := nd,
                         appointment_time := nt, status := BOOKED\<rparr> else x) (appointments s)\<rparr>))
     \<and> ((fst (reschedule_appointment s (Some pid) aid f) =
            Flash_Redirect ''Selected slot is unavailable.'' ''danger'' ''patient_dashboard'')
         \<longleftrightarrow> (\<exists>x\<in>set (appointments s). a_id x \<noteq> a_id a \<and> doctor_id x = doctor_id a \<and>
                 appointment_date x = nd \<and> appointment_time x = nt))
     \<and> (nd = appointment_date a \<and> nt = appointment_time a \<longrightarrow>
         reschedule_appointment s (Some pid) aid f =
           (Flash_Redirect ''Appointment rescheduled.'' ''success'' ''patient_dashboard'',
            s\<lparr>appointments := map (\<lambda>x. if a_id x = aid then a\<lparr>status := BOOKED\<rparr> else x)
                                 (appointments s)\<rparr>))"
proof -
  let ?P = "\<lambda>x. same_slot x (doctor_id a) nd nt"
  let ?E = "\<exists>x\<in>set (appointments s). a_id x \<noteq> a_id a \<and> ?P x"
  from assms(2) have a_in: "a \<in> set (appointments s)" and aid: "a_id a = aid"
    by (auto dest: find_SomeD)
  have other: "list_ex (\<lambda>x. a_id x \<noteq> a_id a \<and> ?P x) (appointments s) = ?E"
    by (auto simp: list_ex_iff)
  have conflict:
    "(case find ?P (appointments s) of None \<Rightarrow> False | Some c \<Rightarrow> a_id c \<noteq> a_id a) = ?E"
  proof (cases "find ?P (appointments s)")
    case None
    then have "\<forall>x\<in>set (appointments s). \<not> ?P x" by (simp add: find_None_iff)
    with None show ?thesis by auto
  next
    case (Some c)
    then have c: "c \<in> set (appointments s)" "?P c"
      using find_SomeD by fastforce+
    show ?thesis
    proof (cases "a_id c = a_id a")
      case True
      have "\<not> ?E"
      proof
        assume ?E
        then obtain x where x: "x \<in> set (appointments s)" "a_id x \<noteq> a_id a" "?P x" by blast
        with c have "slot_key x = slot_key c" by (simp add: slot_key_def same_slot_def)
        with assms(1) x(1) c(1) have "x = c" by (rule uniq_slot_same)
        with x(2) True show False by simp
      qed
      with Some True show ?thesis by simp
    next
      case False
      with c Some show ?thesis by auto
    qed
  qed
  have res: "reschedule_appointment s (Some pid) aid f =
      (if ?E then (Flash_Redirect ''Selected slot is unavailable.'' ''danger''
                     ''patient_dashboard'', s)
       else (Flash_Redirect ''Appointment rescheduled.'' ''success'' ''patient_dashboard'',
         s\<lparr>appointments := map (\<lambda>x. if a_id x = aid then a\<lparr>appointment_date := nd,
                         appointment_time := nt, status := BOOKED\<rparr> else x) (appointments s)\<rparr>))"
    using assms(2-5) conflict other aid
    by (simp add: reschedule_appointment_def update_appointment_def Let_def)
  have full: "reschedule_appointment s (Some pid) aid f =
      (if \<exists>x\<in>set (appointments s). a_id x \<noteq> a_id a \<and> doctor_id x = doctor_id a \<and>
                 appointment_date x = nd \<and> appointment_time x = nt
       then (Flash_Redirect ''Selected slot is unavailable.'' ''danger''
               ''patient_dashboard'', s)
       else (Flash_Redirect ''Appointment rescheduled.'' ''success'' ''patient_dashboard'',
         s\<lparr>appointments := map (\<lambda>x. if a_id x = aid then a\<lparr>appointment_date := nd,
                         appointment_time := nt, status := BOOKED\<rparr> else x) (appointments s)\<rparr>))"
    using res by (simp add: same_slot_def)
  have iff: "(fst (reschedule_appointment s (Some pid) aid f) =
            Flash_Redirect ''Selected slot is unavailable.'' ''danger'' ''patient_dashboard'')
         \<longleftrightarrow> (\<exists>x\<in>set (appointments s). a_id x \<noteq> a_id a \<and> doctor_id x = doctor_id a \<and>
                 appointment_date x = nd \<and> appointment_time x = nt)"
    unfolding res by (simp add: same_slot_def)
  have self: "reschedule_appointment s (Some pid) aid f =
           (Flash_Redirect ''Appointment rescheduled.'' ''success'' ''patient_dashboard'',
            s\<lparr>appointments := map (\<lambda>x. if a_id x = aid then a\<lparr>status := BOOKED\<rparr> else x)
                                 (appointments s)\<rparr>)"
    if own: "nd = appointment_date a \<and> nt = appointment_time a"
  proof -
    have "\<not> ?E"
    proof
      assume ?E
      then obtain x where x: "x \<in> set (appointments s)" "a_id x \<noteq> a_id a" "?P x" by blast
      with own have "slot_key x = slot_key a" by (simp add: slot_key_def same_slot_def)
      with assms(1) x(1) a_in have "x = a" by (rule uniq_slot_same)
      with x(2) show False by simp
    qed
    moreover have "a\<lparr>appointment_date := nd, appointment_time := nt, status := BOOKED\<rparr> =
        a\<lparr>status := BOOKED\<rparr>"
      using own by simp
    ultimately show ?thesis unfolding res by simp
  qed
  show ?thesis
  proof (intro conjI impI)
    show "reschedule_appointment s (Some pid) aid f =
      (if \<exists>x\<in>set (appointments s). a_id x \<noteq> a_id a \<and> doctor_id x = doctor_id a \<and>
                 appointment_date x = nd \<and> appointment_time x = nt
       then (Flash_Redirect ''Selected slot is unavailable.'' ''danger''
               ''patient_dashboard'', s)
       else (Flash_Redirect ''Appointment rescheduled.'' ''success'' ''patient_dashboard'',
         s\<lparr>appointments := map (\<lambda>x. if a_id x = aid then a\<lparr>appointment_date := nd,
                         appointment_time := nt, status := BOOKED\<rparr> else x) (appointments s)\<rparr>))"
      by (rule full)
    show "(fst (reschedule_appointment s (Some pid) aid f) =
            Flash_Redirect ''Selected slot is unavailable.'' ''danger'' ''patient_dashboard'')
         \<longleftrightarrow> (\<exists>x\<in>set (appointments s). a_id x \<noteq> a_id a \<and> doctor_id x = doctor_id a \<and>
                 appointment_date x = nd \<and> appointment_time x = nt)"
      by (rule iff)
    assume "nd = appointment_date a \<and> nt = appointment_time a"
    then show "reschedule_appointment s (Some pid) aid f =
           (Flash_Redirect ''Appointment rescheduled.'' ''success'' ''patient_dashboard'',
            s\<lparr>appointments := map (\<lambda>x. if a_id x = aid then a\<lparr>status := BOOKED\<rparr> else x)
                                 (appointments s)\<rparr>)"
      by (rule self)
  qed
qed

theorem reschedule_conflict_iff_witness:
  "uniq_doctor_slot (appointments db2)
   \<and> reschedule_appointment db2 (Some 1) 2 reschedule_form1 =
       (Flash_Redirect ''Selected slot is unavailable.'' ''danger'' ''patient_dashboard'', db2)
   \<and> status appt2 = COMPLETED
   \<and> fst (reschedule_appointment db2 (Some 1) 2 reschedule_form2) \<noteq>
       Flash_Redirect ''Selected slot is unavailable.'' ''danger'' ''patient_dashboard''
   \<and> reschedule_appointment db2 (Some 1) 1 reschedule_form1 =
       (Flash_Redirect ''Appointment rescheduled.'' ''success'' ''patient_dashboard'',
        db0\<lparr>appointments := [appt1\<lparr>status := BOOKED\<rparr>, appt2]\<rparr>)"
proof -
  have u: "uniq_doctor_slot (appointments db2)"
    by (simp add: db2_def appt1_def appt2_def uniq_doctor_slot_def slot_key_def)
  have h1: "find (\<lambda>x. a_id x = 1) (appointments db2) = Some appt1"
    and h2: "find (\<lambda>x. a_id x = 2) (appointments db2) = Some appt2"
    by (simp_all add: db2_def appt1_def appt2_def)
  have "reschedule_appointment db2 (Some 1) 2 reschedule_form1 =
       (Flash_Redirect ''Selected slot is unavailable.'' ''danger'' ''patient_dashboard'', db2)"
    using reschedule_conflict_iff [OF u h2, where pid = 1 and f = reschedule_form1
        and nd = 739047 and nt = "(10, 0)"]
    by (simp add: db2_def appt1_def appt2_def reschedule_form1_def)
  moreover have "fst (reschedule_appointment db2 (Some 1) 2 reschedule_form2) \<noteq>
       Flash_Redirect ''Selected slot is unavailable.'' ''danger'' ''patient_dashboard''"
    using reschedule_conflict_iff [OF u h2, where pid = 1 and f = reschedule_form2
        and nd = 739049 and nt = "(9, 30)"]
    by (simp add: db2_def appt1_def appt2_def reschedule_form2_def)
  moreover have "reschedule_appointment db2 (Some 1) 1 reschedule_form1 =
       (Flash_Redirect ''Appointment rescheduled.'' ''success'' ''patient_dashboard'',
        db0\<lparr>appointments := [appt1\<lparr>status := BOOKED\<rparr>, appt2]\<rparr>)"
    using reschedule_conflict_iff [OF u h1, where pid = 1 and f = reschedule_form1
        and nd = 739047 and nt = "(10, 0)"]
    by (simp add: db2_def db0_def appt1_def appt2_def reschedule_form1_def)
  moreover have "status appt2 = COMPLETED" by (simp add: appt2_def)
  ultimately show ?thesis using u by simp
qed

text \<open>
  C5. For an appointment \<open>a\<close> of the requesting patient and a converted new date and
  time that no row with another id occupies for the doctor of \<open>a\<close>, reschedule
  succeeds and the stored appointment is \<open>a\<close> with the new date, the new time and
  status BOOKED, whatever the status of \<open>a\<close> was.
\<close>

theorem reschedule_success:
  assumes "find (\<lambda>x. a_id x = aid) (appointments s) = Some a"
    and "patient_id a = pid"
    and "rf_appointment_date f = Parsed nd" and "rf_appointment_time f = Parsed nt"
    and "\<forall>x\<in>set (appointments s). a_id x \<noteq> a_id a \<longrightarrow> \<not> same_slot x (doctor_id a) nd nt"
  shows "reschedule_appointment s (Some pid) aid f =
       (Flash_Redirect ''Appointment rescheduled.'' ''success'' ''patient_dashboard'',
         s\<lparr>appointments := map (\<lambda>x. if a_id x = aid then a\<lparr>appointment_date := nd,
                         appointment_time := nt, status := BOOKED\<rparr> else x) (appointments s)\<rparr>)
    \<and> find (\<lambda>x. a_id x = aid) (appointments (snd (reschedule_appointment s (Some pid) aid f)))
          = Some (a\<lparr>appointment_date := nd, appointment_time := nt, status := BOOKED\<rparr>)"
proof -
  let ?P = "\<lambda>x. same_slot x (doctor_id a) nd nt"
  from assms(1) have aid: "a_id a = aid"
    by (auto dest: find_SomeD)
  have other: "\<not> list_ex (\<lambda>x. a_id x \<noteq> a_id a \<and> ?P x) (appointments s)"
    using assms(5) by (auto simp: list_ex_iff)
  have conflict:
    "\<not> (case find ?P (appointments s) of None \<Rightarrow> False | Some c \<Rightarrow> a_id c \<noteq> a_id a)"
    using assms(5) by (auto dest: find_SomeD split: option.splits)
  have res: "reschedule_appointment s (Some pid) aid f =
       (Flash_Redirect ''Appointment rescheduled.'' ''success'' ''patient_dashboard'',
         s\<lparr>appointments := map (\<lambda>x. if a_id x = aid then a\<lparr>appointment_date := nd,
                         appointment_time := nt, status := BOOKED\<rparr> else x) (appointments s)\<rparr>)"
    using assms(1-4) conflict other aid
    by (simp add: reschedule_appointment_def update_appointment_def Let_def)
  have "find (\<lambda>x. a_id x = aid) (map (\<lambda>x. if a_id x = aid then a\<lparr>appointment_date := nd,
                         appointment_time := nt, status := BOOKED\<rparr> else x) (appointments s))
        = map_option (\<lambda>_. a\<lparr>appointment_date := nd, appointment_time := nt, status := BOOKED\<rparr>)
             (find (\<lambda>x. a_id x = aid) (appointments s))"
    using aid by (intro find_upd_const) simp
  then have "find (\<lambda>x. a_id x = aid)
               (appointments (snd (reschedule_appointment s (Some pid) aid f)))
          = Some (a\<lparr>appointment_date := nd, appointment_time := nt, status := BOOKED\<rparr>)"
    unfolding res using assms(1) by simp
  with res show ?thesis by simp
qed

theorem reschedule_success_witness:
  "status appt1 = CANCELLED
   \<and> reschedule_appointment db2 (Some 1) 1 reschedule_form2 =
       (Flash_Redirect ''Appointment rescheduled.'' ''success'' ''patient_dashboard'',
        db0\<lparr>appointments :=
              [appt1\<lparr>appointment_date := 739049, appointment_time := (9, 30), status := BOOKED\<rparr>,
               appt2]\<rparr>)"
  using reschedule_success [where s = db2 and aid = 1 and a = appt1 and pid = 1
      and f = reschedule_form2 and nd = 739049 and nt = "(9, 30)"]
  by (simp add: db2_def db0_def appt1_def appt2_def reschedule_form2_def same_slot_def)

section \<open>The availability upsert\<close>

lemma next_id_fresh: "next_id ids \<notin> set ids"
proof (cases "ids = []")
  case True
  then show ?thesis by simp
next
  case False
  have "i < Max (set ids) + 1" if "i \<in> set ids" for i
  proof -
    from that have "i \<le> Max (set ids)" by simp
    then show ?thesis by simp
  qed
  then have "Max (set ids) + 1 \<notin> set ids" by blast
  with False show ?thesis by (simp add: next_id_def)
qed

lemma filter_key_single:
  "distinct (map k rows) \<Longrightarrow> a \<in> set rows \<Longrightarrow> filter (\<lambda>x. k x = k a) rows = [a]"
proof (induction rows)
  case Nil
  then show ?case by simp
next
  case (Cons r rows)
  show ?case
  proof (cases "k r = k a")
    case True
    with Cons.prems have "a = r" by (auto simp: image_iff)
    moreover from Cons.prems True have "filter (\<lambda>x. k x = k a) rows = []"
      by (auto simp: filter_empty_conv image_iff)
    ultimately show ?thesis by simp
  next
    case False
    with Cons show ?thesis by auto
  qed
qed

lemma same_day_key: "same_day x did d \<longleftrightarrow> avail_key x = (did, d)"
  by (auto simp: same_day_def avail_key_def)

lemma overwrite_step:
  fixes st en :: time_of_day
  assumes wf: "uniq_doctor_date_availability (availabilities s)"
    and f: "find (\<lambda>x. same_day x did d) (availabilities s) = Some a"
  defines "rows' \<equiv> map (\<lambda>x. if av_id x = av_id a then x\<lparr>start_time := st, end_time := en\<rparr> else x)
                      (availabilities s)"
  shows "uniq_doctor_date_availability rows'"
    and "map (\<lambda>x. (start_time x, end_time x)) (filter (\<lambda>x. same_day x did' d') rows') =
          (if did' = did \<and> d' = d then [(st, en)]
           else map (\<lambda>x. (start_time x, end_time x)) (filter (\<lambda>x. same_day x did' d') (availabilities s)))"
proof -
  let ?upd = "\<lambda>x. if av_id x = av_id a then x\<lparr>start_time := st, end_time := en\<rparr> else x"
  from f have a: "a \<in> set (availabilities s)" "avail_key a = (did, d)"
    using find_SomeD[OF f] by (auto simp: same_day_key)
  have ids: "map av_id rows' = map av_id (availabilities s)"
    and keys: "map avail_key rows' = map avail_key (availabilities s)"
    by (auto simp: rows'_def avail_key_def)
  with wf show "uniq_doctor_date_availability rows'"
    by (simp add: uniq_doctor_date_availability_def)
  have only_a: "?upd x = x" if "x \<in> set (availabilities s)" "x \<noteq> a" for x
  proof -
    from wf have "inj_on av_id (set (availabilities s))"
      by (simp add: uniq_doctor_date_availability_def distinct_map)
    with that a(1) have "av_id x \<noteq> av_id a" by (auto dest: inj_onD)
    then show ?thesis by simp
  qed
  have comm: "filter (\<lambda>x. same_day x did' d') rows' =
        map ?upd (filter (\<lambda>x. same_day x did' d') (availabilities s))"
    unfolding rows'_def by (induction "availabilities s") (auto simp: same_day_def filter_map o_def)
  show "map (\<lambda>x. (start_time x, end_time x)) (filter (\<lambda>x. same_day x did' d') rows') =
          (if did' = did \<and> d' = d then [(st, en)]
           else map (\<lambda>x. (start_time x, end_time x)) (filter (\<lambda>x. same_day x did' d') (availabilities s)))"
  proof (cases "did' = did \<and> d' = d")
    case True
    from wf a have "filter (\<lambda>x. avail_key x = avail_key a) (availabilities s) = [a]"
      by (intro filter_key_single) (simp_all add: uniq_doctor_date_availability_def)
    with a(2) True have "filter (\<lambda>x. same_day x did' d') (availabilities s) = [a]"
      by (simp add: same_day_key)
    then have "filter (\<lambda>x. same_day x did' d') rows' = [a\<lparr>start_time := st, end_time := en\<rparr>]"
      unfolding comm by simp
    with True show ?thesis by simp
  next
    case False
    have "map ?upd (filter (\<lambda>x. same_day x did' d') (availabilities s)) =
          filter (\<lambda>x. same_day x did' d') (availabilities s)"
    proof (rule map_idI)
      fix x assume "x \<in> set (filter (\<lambda>x. same_day x did' d') (availabilities s))"
      then have x: "x \<in> set (availabilities s)" "avail_key x = (did', d')"
        by (auto simp: same_day_key)
      with a(2) False have "x \<noteq> a" by auto
      with x(1) show "?upd x = x" by (rule only_a)
    qed
    with False show ?thesis by (auto simp: comm)
  qed
qed

lemma insert_step:
  fixes st en :: time_of_day
  assumes wf: "uniq_doctor_date_availability (availabilities s)"
    and f: "find (\<lambda>x. same_day x did d) (availabilities s) = None"
  defines "new \<equiv> \<lparr>av_id = next_id (map av_id (availabilities s)), av_doctor_id = did,
               available_date = d, start_time = st, end_time = en\<rparr>"
  shows "insert_availability s new ok = (ok, s\<lparr>availabilities := availabilities s @ [new]\<rparr>)"
    and "uniq_doctor_date_availability (availabilities s @ [new])"
    and "map (\<lambda>x. (start_time x, end_time x))
           (filter (\<lambda>x. same_day x did' d') (availabilities s @ [new])) =
          (if did' = did \<and> d' = d then [(st, en)]
           else map (\<lambda>x. (start_time x, end_time x))
                  (filter (\<lambda>x. same_day x did' d') (availabilities s)))"
proof -
  from f have none: "\<forall>x\<in>set (availabilities s). \<not> same_day x did d"
    by (simp add: find_None_iff)
  then show "insert_availability s new ok = (ok, s\<lparr>availabilities := availabilities s @ [new]\<rparr>)"
    by (simp add: insert_availability_def list_ex_iff new_def)
  from none have "avail_key new \<notin> set (map avail_key (availabilities s))"
    by (auto simp: same_day_key new_def avail_key_def)
  moreover have "av_id new \<notin> set (map av_id (availabilities s))"
    using next_id_fresh[of "map av_id (availabilities s)"] by (simp add: new_def)
  ultimately show "uniq_doctor_date_availability (availabilities s @ [new])"
    using wf by (simp add: uniq_doctor_date_availability_def)
  from none have "filter (\<lambda>x. same_day x did d) (availabilities s) = []"
    by (simp add: filter_empty_conv)
  then show "map (\<lambda>x. (start_time x, end_time x))
           (filter (\<lambda>x. same_day x did' d') (availabilities s @ [new])) =
          (if did' = did \<and> d' = d then [(st, en)]
           else map (\<lambda>x. (start_time x, end_time x))
                  (filter (\<lambda>x. same_day x did' d') (availabilities s)))"
    by (auto simp: new_def same_day_def)
qed

lemma update_availability_step:
  assumes wf: "uniq_doctor_date_availability (availabilities s)"
  shows "uniq_doctor_date_availability (availabilities (snd (update_availability s (Some did) today f)))
    \<and> times_for (snd (update_availability s (Some did) today f)) did' d' =
        (case saved_times (did, today, f) did' d' of Some t \<Rightarrow> [t] | None \<Rightarrow> times_for s did' d')
    \<and> (fst (update_availability s (Some did) today f) =
          Flash_Redirect ''Availability saved.'' ''success'' ''doctor_dashboard'' \<longleftrightarrow>
         (\<exists>k d. saved_times (did, today, f) k d \<noteq> None))"
proof (cases "\<exists>d st en. af_date f = Parsed d \<and> af_start_time f = Parsed st \<and> af_end_time f = Parsed en
         \<and> today \<le> d \<and> d \<le> today + 7")
  case False
  then have "snd (update_availability s (Some did) today f) = s"
    and "fst (update_availability s (Some did) today f) \<noteq>
      Flash_Redirect ''Availability saved.'' ''success'' ''doctor_dashboard''"
    and "\<And>k d. saved_times (did, today, f) k d = None"
    by (cases "af_date f"; cases "af_start_time f"; cases "af_end_time f";
        auto simp: update_availability_def)+
  with wf show ?thesis by simp
next
  case True
  then obtain d st en where p: "af_date f = Parsed d" "af_start_time f = Parsed st"
    "af_end_time f = Parsed en" "today \<le> d" "d \<le> today + 7" by blast
  then have sv: "saved_times (did, today, f) did' d' = (if did' = did \<and> d' = d then Some (st, en) else None)"
    by auto
  from p have ex: "\<exists>k d. saved_times (did, today, f) k d \<noteq> None" by auto
  show ?thesis
  proof (cases "find (\<lambda>x. same_day x did d) (availabilities s)")
    case None
    from insert_step(1)[OF wf None, where st=st and en=en and ok="Flash_Redirect ''Availability saved.'' ''success'' ''doctor_dashboard''"]
      insert_step(2)[OF wf None, where st=st and en=en]
      insert_step(3)[OF wf None, where st=st and en=en and did'=did' and d'=d'] None p ex show ?thesis
      by (simp add: update_availability_def times_for_def sv)
  next
    case (Some a)
    from overwrite_step(1)[OF wf Some, where st=st and en=en]
      overwrite_step(2)[OF wf Some, where st=st and en=en and did'=did' and d'=d'] Some p ex show ?thesis
      by (simp add: update_availability_def times_for_def sv)
  qed
qed

lemma update_availability_all_times:
  assumes "uniq_doctor_date_availability (availabilities s)"
  shows "uniq_doctor_date_availability (availabilities (update_availability_all s cs))
     \<and> times_for (update_availability_all s cs) did d =
        (case last_saved_times cs did d of Some t \<Rightarrow> [t] | None \<Rightarrow> times_for s did d)"
  using assms
proof (induction cs arbitrary: s)
  case Nil
  then show ?case by simp
next
  case (Cons c cs)
  obtain did' today f where c: "c = (did', today, f)" by (cases c)
  let ?s1 = "snd (update_availability s (Some did') today f)"
  from update_availability_step[OF Cons.prems, of did' today f did d]
  have wf1: "uniq_doctor_date_availability (availabilities ?s1)"
    and t1: "times_for ?s1 did d =
        (case saved_times (did', today, f) did d of Some t \<Rightarrow> [t] | None \<Rightarrow> times_for s did d)"
    by simp_all
  from Cons.IH[OF wf1] t1 show ?case
    unfolding c by (simp split: option.splits)
qed


lemma overwrite_in_place:
  assumes "find (\<lambda>x. same_day x did e) (availabilities s) = Some a"
    and "saved_times (did, today, f) did e = Some (st, en)"
  shows "availabilities (snd (update_availability s (Some did) today f)) =
           map (\<lambda>x. if av_id x = av_id a then x\<lparr>start_time := st, end_time := en\<rparr> else x)
             (availabilities s)"
proof -
  from assms(2) have "af_date f = Parsed e \<and> af_start_time f = Parsed st \<and>
      af_end_time f = Parsed en \<and> today \<le> e \<and> e \<le> today + 7"
    by (cases "af_date f"; cases "af_start_time f"; cases "af_end_time f")
       (auto split: if_splits)
  with assms(1) show ?thesis by (simp add: update_availability_def)
qed

text \<open>
  C3. In a store that satisfies the availability constraint of the schema (the empty store
  does), after any sequence of update_availability requests the constraint still holds,
  so that a doctor and date have at most one row; and if some request of the sequence was
  saved for that doctor and date, they have exactly one row and it carries the times of
  the last such request. A request is answered "Availability saved." exactly when it
  saves times for some doctor and date. A saved request for a doctor and date that have a
  row rewrites the start and end time of that row and leaves the number of rows as it was.
\<close>

theorem availability_upsert:
  assumes "uniq_doctor_date_availability (availabilities s)"
  shows "uniq_doctor_date_availability (availabilities (update_availability_all s cs))
     \<and> times_for (update_availability_all s cs) did d =
        (case last_saved_times cs did d of Some t \<Rightarrow> [t] | None \<Rightarrow> times_for s did d)
     \<and> (fst (update_availability s (Some did) today f) =
          Flash_Redirect ''Availability saved.'' ''success'' ''doctor_dashboard'' \<longleftrightarrow>
         (\<exists>k e. saved_times (did, today, f) k e \<noteq> None))
     \<and> (\<forall>a st en. find (\<lambda>x. same_day x did d) (availabilities s) = Some a \<and>
            saved_times (did, today, f) did d = Some (st, en) \<longrightarrow>
          availabilities (snd (update_availability s (Some did) today f)) =
            map (\<lambda>x. if av_id x = av_id a then x\<lparr>start_time := st, end_time := en\<rparr> else x)
              (availabilities s)
          \<and> length (availabilities (snd (update_availability s (Some did) today f))) =
            length (availabilities s))"
proof -
  note seq = update_availability_all_times [OF assms, of cs did d]
  note step = update_availability_step [OF assms, of did today f did d]
  have "availabilities (snd (update_availability s (Some did) today f)) =
            map (\<lambda>x. if av_id x = av_id a then x\<lparr>start_time := st, end_time := en\<rparr> else x)
              (availabilities s)
          \<and> length (availabilities (snd (update_availability s (Some did) today f))) =
            length (availabilities s)"
    if "find (\<lambda>x. same_day x did d) (availabilities s) = Some a"
      and "saved_times (did, today, f) did d = Some (st, en)" for a st en
    using overwrite_in_place [OF that] by simp
  with seq step show ?thesis by blast
qed

theorem availability_upsert_witness:
  "uniq_doctor_date_availability (availabilities db0)
   \<and> times_for (update_availability_all db0
         [(1, 739047, availability_form0), (1, 739047, availability_form1)]) 1 739048
       = [((13, 0), (17, 0))]
   \<and> availabilities (update_availability_all db0
         [(1, 739047, availability_form0), (1, 739047, availability_form1)])
       = [\<lparr>av_id = 1, av_doctor_id = 1, available_date = 739048, start_time = (13, 0),
            end_time = (17, 0)\<rparr>]"
proof -
  have wf: "uniq_doctor_date_availability (availabilities db0)"
    by (simp add: db0_def uniq_doctor_date_availability_def)
  have "last_saved_times [(1, 739047, availability_form0), (1, 739047, availability_form1)]
          1 739048 = Some ((13, 0), (17, 0))"
    by (simp add: availability_form0_def availability_form1_def)
  with availability_upsert [OF wf,
      of "[(1, 739047, availability_form0), (1, 739047, availability_form1)]" 1 739048]
  have "times_for (update_availability_all db0
         [(1, 739047, availability_form0), (1, 739047, availability_form1)]) 1 739048
       = [((13, 0), (17, 0))]"
    by simp
  moreover have "availabilities (update_availability_all db0
         [(1, 739047, availability_form0), (1, 739047, availability_form1)])
       = [\<lparr>av_id = 1, av_doctor_id = 1, available_date = 739048, start_time = (13, 0),
            end_time = (17, 0)\<rparr>]"
    by (simp add: db0_def availability_form0_def availability_form1_def
        update_availability_def insert_availability_def same_day_def next_id_def)
  ultimately show ?thesis using wf by simp
qed

section \<open>Status and clinical updates\<close>

lemma find_map_same:
  assumes "\<And>x. P (g x) = P x"
  shows "find P (map g xs) = map_option g (find P xs)"
  using assms by (induction xs) auto

lemma apply_status_changed:
  "apply_status st old \<noteq> old \<Longrightarrow>
     st \<in> {Some ''BOOKED'', Some ''COMPLETED'', Some ''CANCELLED''}"
  by (auto simp: apply_status_def AppointmentStatus_members_def split: option.splits if_splits)

lemma apply_status_member:
  "apply_status (Some ''BOOKED'') old = BOOKED"
  "apply_status (Some ''COMPLETED'') old = COMPLETED"
  "apply_status (Some ''CANCELLED'') old = CANCELLED"
  by (simp_all add: apply_status_def AppointmentStatus_members_def)

lemma apply_status_unrecognized:
  "k \<notin> set (map fst AppointmentStatus_members) \<Longrightarrow> apply_status (Some k) old = old"
proof -
  assume "k \<notin> set (map fst AppointmentStatus_members)"
  then have "map_of AppointmentStatus_members k = None"
    by (simp add: map_of_eq_None_iff)
  then show ?thesis by (simp add: apply_status_def)
qed

lemma clinical_update_owner:
  assumes "find (\<lambda>x. a_id x = aid) (appointments s) = Some a" and d: "doctor_id a = did"
  shows "fst (update_appointment_status s (Some did) aid f) =
            Flash_Redirect ''Appointment updated.'' ''success'' ''doctor_dashboard''
        \<and> find (\<lambda>x. a_id x = aid) (appointments (snd (update_appointment_status s (Some did) aid f)))
            = Some (a\<lparr>status := apply_status (cf_status f) (status a)\<rparr>)
        \<and> (case find (\<lambda>n. appointment_id n = aid) (treatment_notes s) of
             None \<Rightarrow>
               treatment_notes (snd (update_appointment_status s (Some did) aid f)) =
                 treatment_notes s @
                   [\<lparr>n_id = next_id (map n_id (treatment_notes s)), appointment_id = aid,
                     diagnosis = form_get (cf_diagnosis f) [],
                     prescription = form_get (cf_prescription f) [],
                     n_notes = form_get (cf_notes f) []\<rparr>]
           | Some note \<Rightarrow>
               treatment_notes (snd (update_appointment_status s (Some did) aid f)) =
                 map (\<lambda>n. if n_id n = n_id note
                           then n\<lparr>diagnosis := form_get (cf_diagnosis f) [],
                                  prescription := form_get (cf_prescription f) [],
                                  n_notes := form_get (cf_notes f) []\<rparr>
                           else n) (treatment_notes s)
             \<and> find (\<lambda>n. appointment_id n = aid)
                  (treatment_notes (snd (update_appointment_status s (Some did) aid f))) =
                 Some (note\<lparr>diagnosis := form_get (cf_diagnosis f) [],
                            prescription := form_get (cf_prescription f) [],
                            n_notes := form_get (cf_notes f) []\<rparr>))"
proof -
  from assms have aid: "a_id a = aid" by (auto dest: find_SomeD)
  have appt: "find (\<lambda>x. a_id x = aid)
      (map (\<lambda>x. if a_id x = aid then x\<lparr>status := apply_status (cf_status f) (status a)\<rparr> else x)
         (appointments s)) = Some (a\<lparr>status := apply_status (cf_status f) (status a)\<rparr>)"
    using assms by (simp add: find_upd)
  let ?upd = "\<lambda>n. n\<lparr>diagnosis := form_get (cf_diagnosis f) [],
                     prescription := form_get (cf_prescription f) [],
                     n_notes := form_get (cf_notes f) []\<rparr>"
  show ?thesis
  proof (cases "find (\<lambda>n. appointment_id n = aid) (treatment_notes s)")
    case None
    then have "\<not> list_ex (\<lambda>x. appointment_id x = aid) (treatment_notes s)"
      by (simp add: find_None_iff list_ex_iff)
    with None assms d aid appt show ?thesis
      by (simp add: update_appointment_status_def Let_def)
  next
    case (Some tn)
    have "find (\<lambda>n. appointment_id n = aid)
            (map (\<lambda>n. if n_id n = n_id tn then ?upd n else n) (treatment_notes s)) =
          map_option (\<lambda>n. if n_id n = n_id tn then ?upd n else n)
            (find (\<lambda>n. appointment_id n = aid) (treatment_notes s))"
      by (rule find_map_same) simp
    with Some have "find (\<lambda>n. appointment_id n = aid)
            (map (\<lambda>n. if n_id n = n_id tn then ?upd n else n) (treatment_notes s)) =
          Some (?upd tn)"
      by simp
    with Some assms d aid appt show ?thesis
      by (simp add: update_appointment_status_def Let_def)
  qed
qed

lemma clinical_update_result:
  assumes "find (\<lambda>x. a_id x = aid) (appointments s) = Some a" and d: "doctor_id a = did"
  shows "update_appointment_status s (Some did) aid f =
       (Flash_Redirect ''Appointment updated.'' ''success'' ''doctor_dashboard'',
        s\<lparr>appointments :=
             map (\<lambda>x. if a_id x = aid
                       then x\<lparr>status := apply_status (cf_status f) (status a)\<rparr> else x)
                 (appointments s),
           treatment_notes :=
             (case find (\<lambda>n. appointment_id n = aid) (treatment_notes s) of
                None \<Rightarrow>
                  treatment_notes s @
                    [\<lparr>n_id = next_id (map n_id (treatment_notes s)), appointment_id = aid,
                      diagnosis = form_get (cf_diagnosis f) [],
                      prescription = form_get (cf_prescription f) [],
                      n_notes = form_get (cf_notes f) []\<rparr>]
              | Some tn \<Rightarrow>
                  map (\<lambda>n. if n_id n = n_id tn
                            then n\<lparr>diagnosis := form_get (cf_diagnosis f) [],
                                   prescription := form_get (cf_prescription f) [],
                                   n_notes := form_get (cf_notes f) []\<rparr>
                            else n) (treatment_notes s))\<rparr>)"
proof -
  from assms have aid: "a_id a = aid" by (auto dest: find_SomeD)
  show ?thesis
  proof (cases "find (\<lambda>n. appointment_id n = aid) (treatment_notes s)")
    case None
    then have "\<not> list_ex (\<lambda>x. appointment_id x = aid) (treatment_notes s)"
      by (simp add: find_None_iff list_ex_iff)
    with None assms aid show ?thesis
      by (simp add: update_appointment_status_def Let_def)
  next
    case (Some tn)
    with assms aid show ?thesis
      by (simp add: update_appointment_status_def Let_def)
  qed
qed

text \<open>
  C7. For an appointment \<open>a\<close> that exists and a requesting doctor \<open>did\<close>, the clinical
  update aborts with 403 exactly when \<open>a\<close> is assigned to another doctor, and then the
  store is returned as it was. Otherwise it succeeds and writes only the status of \<open>a\<close>
  and its treatment note; the stored status differs from the old one only if the status
  field is one of the member names BOOKED, COMPLETED, CANCELLED, and then it is that
  member; and the treatment note of \<open>a\<close> is appended when there was none, and otherwise
  has its diagnosis, prescription and notes replaced by the fields of the form, an absent
  field counting as the empty string.

  A recognized status is what \<open>status in AppointmentStatus.__members__\<close> accepts: a
  member name. The values of the members, "Booked", "Completed" and "Cancelled", under
  which the status is stored and shown, are not names, and a form that sends one of them
  leaves the status as it is.
\<close>

theorem clinical_update:
  assumes "find (\<lambda>x. a_id x = aid) (appointments s) = Some a"
  shows "((fst (update_appointment_status s (Some did) aid f) = Abort 403) \<longleftrightarrow> doctor_id a \<noteq> did)
     \<and> (doctor_id a \<noteq> did \<longrightarrow> update_appointment_status s (Some did) aid f = (Abort 403, s))
     \<and> (doctor_id a = did \<longrightarrow>
          update_appointment_status s (Some did) aid f =
            (Flash_Redirect ''Appointment updated.'' ''success'' ''doctor_dashboard'',
             s\<lparr>appointments :=
                  map (\<lambda>x. if a_id x = aid
                            then x\<lparr>status := apply_status (cf_status f) (status a)\<rparr> else x)
                      (appointments s),
                treatment_notes :=
                  (case find (\<lambda>n. appointment_id n = aid) (treatment_notes s) of
                     None \<Rightarrow>
                       treatment_notes s @
                         [\<lparr>n_id = next_id (map n_id (treatment_notes s)), appointment_id = aid,
                           diagnosis = form_get (cf_diagnosis f) [],
                           prescription = form_get (cf_prescription f) [],
                           n_notes = form_get (cf_notes f) []\<rparr>]
                   | Some tn \<Rightarrow>
                       map (\<lambda>n. if n_id n = n_id tn
                                 then n\<lparr>diagnosis := form_get (cf_diagnosis f) [],
                                        prescription := form_get (cf_prescription f) [],
                                        n_notes := form_get (cf_notes f) []\<rparr>
                                 else n) (treatment_notes s))\<rparr>)
        \<and> fst (update_appointment_status s (Some did) aid f) =
            Flash_Redirect ''Appointment updated.'' ''success'' ''doctor_dashboard''
        \<and> find (\<lambda>x. a_id x = aid) (appointments (snd (update_appointment_status s (Some did) aid f)))
            = Some (a\<lparr>status := apply_status (cf_status f) (status a)\<rparr>)
        \<and> (apply_status (cf_status f) (status a) \<noteq> status a \<longrightarrow>
             cf_status f \<in> {Some ''BOOKED'', Some ''COMPLETED'', Some ''CANCELLED''})
        \<and> (cf_status f = Some ''BOOKED'' \<longrightarrow> apply_status (cf_status f) (status a) = BOOKED)
        \<and> (cf_status f = Some ''COMPLETED'' \<longrightarrow> apply_status (cf_status f) (status a) = COMPLETED)
        \<and> (cf_status f = Some ''CANCELLED'' \<longrightarrow> apply_status (cf_status f) (status a) = CANCELLED)
        \<and> (case find (\<lambda>n. appointment_id n = aid) (treatment_notes s) of
             None \<Rightarrow>
               treatment_notes (snd (update_appointment_status s (Some did) aid f)) =
                 treatment_notes s @
                   [\<lparr>n_id = next_id (map n_id (treatment_notes s)), appointment_id = aid,
                     diagnosis = form_get (cf_diagnosis f) [],
                     prescription = form_get (cf_prescription f) [],
                     n_notes = form_get (cf_notes f) []\<rparr>]
           | Some note \<Rightarrow>
               treatment_notes (snd (update_appointment_status s (Some did) aid f)) =
                 map (\<lambda>n. if n_id n = n_id note
                           then n\<lparr>diagnosis := form_get (cf_diagnosis f) [],
                                  prescription := form_get (cf_prescription f) [],
                                  n_notes := form_get (cf_notes f) []\<rparr>
                           else n) (treatment_notes s)
             \<and> find (\<lambda>n. appointment_id n = aid)
                  (treatment_notes (snd (update_appointment_status s (Some did) aid f))) =
                 Some (note\<lparr>diagnosis := form_get (cf_diagnosis f) [],
                            prescription := form_get (cf_prescription f) [],
                            n_notes := form_get (cf_notes f) []\<rparr>)))"
proof -
  have forbidden:
    "(fst (update_appointment_status s (Some did) aid f) = Abort 403) \<longleftrightarrow> doctor_id a \<noteq> did"
    using assms
    by (auto simp: update_appointment_status_def Let_def split: option.splits)
  have refused: "update_appointment_status s (Some did) aid f = (Abort 403, s)"
    if "doctor_id a \<noteq> did"
    using assms that by (simp add: update_appointment_status_def)
  have owner: "doctor_id a = did \<longrightarrow>
          update_appointment_status s (Some did) aid f =
            (Flash_Redirect ''Appointment updated.'' ''success'' ''doctor_dashboard'',
             s\<lparr>appointments :=
                  map (\<lambda>x. if a_id x = aid
                            then x\<lparr>status := apply_status (cf_status f) (status a)\<rparr> else x)
                      (appointments s),
                treatment_notes :=
                  (case find (\<lambda>n. appointment_id n = aid) (treatment_notes s) of
                     None \<Rightarrow>
                       treatment_notes s @
                         [\<lparr>n_id = next_id (map n_id (treatment_notes s)), appointment_id = aid,
                           diagnosis = form_get (cf_diagnosis f) [],
                           prescription = form_get (cf_prescription f) [],
                           n_notes = form_get (cf_notes f) []\<rparr>]
                   | Some tn \<Rightarrow>
                       map (\<lambda>n. if n_id n = n_id tn
                                 then n\<lparr>diagnosis := form_get (cf_diagnosis f) [],
                                        prescription := form_get (cf_prescription f) [],
                                        n_notes := form_get (cf_notes f) []\<rparr>
                                 else n) (treatment_notes s))\<rparr>)"
    using clinical_update_result [OF assms, of did f] by (rule impI)
  have rest: "doctor_id a = did \<longrightarrow>
          fst (update_appointment_status s (Some did) aid f) =
            Flash_Redirect ''Appointment updated.'' ''success'' ''doctor_dashboard''
        \<and> find (\<lambda>x. a_id x = aid) (appointments (snd (update_appointment_status s (Some did) aid f)))
            = Some (a\<lparr>status := apply_status (cf_status f) (status a)\<rparr>)
        \<and> (apply_status (cf_status f) (status a) \<noteq> status a \<longrightarrow>
             cf_status f \<in> {Some ''BOOKED'', Some ''COMPLETED'', Some ''CANCELLED''})
        \<and> (cf_status f = Some ''BOOKED'' \<longrightarrow> apply_status (cf_status f) (status a) = BOOKED)
        \<and> (cf_status f = Some ''COMPLETED'' \<longrightarrow> apply_status (cf_status f) (status a) = COMPLETED)
        \<and> (cf_status f = Some ''CANCELLED'' \<longrightarrow> apply_status (cf_status f) (status a) = CANCELLED)
        \<and> (case find (\<lambda>n. appointment_id n = aid) (treatment_notes s) of
             None \<Rightarrow>
               treatment_notes (snd (update_appointment_status s (Some did) aid f)) =
                 treatment_notes s @
                   [\<lparr>n_id = next_id (map n_id (treatment_notes s)), appointment_id = aid,
                     diagnosis = form_get (cf_diagnosis f) [],
                     prescription = form_get (cf_prescription f) [],
                     n_notes = form_get (cf_notes f) []\<rparr>]
           | Some note \<Rightarrow>
               treatment_notes (snd (update_appointment_status s (Some did) aid f)) =
                 map (\<lambda>n. if n_id n = n_id note
                           then n\<lparr>diagnosis := form_get (cf_diagnosis f) [],
                                  prescription := form_get (cf_prescription f) [],
                                  n_notes := form_get (cf_notes f) []\<rparr>
                           else n) (treatment_notes s)
             \<and> find (\<lambda>n. appointment_id n = aid)
                  (treatment_notes (snd (update_appointment_status s (Some did) aid f))) =
                 Some (note\<lparr>diagnosis := form_get (cf_diagnosis f) [],
                            prescription := form_get (cf_prescription f) [],
                            n_notes := form_get (cf_notes f) []\<rparr>))"
    using clinical_update_owner [OF assms, of did f]
      apply_status_changed [of "cf_status f" "status a"] apply_status_member [of "status a"]
    by simp
  from forbidden refused owner rest show ?thesis by blast
qed

theorem clinical_update_witness:
  "update_appointment_status db3 (Some 9) 2 clinical_form1 = (Abort 403, db3)
   \<and> diagnosis note1 = ''Flu''
   \<and> status_value COMPLETED = ''Completed''
   \<and> update_appointment_status db3 (Some 1) 2 clinical_form1 =
       (Flash_Redirect ''Appointment updated.'' ''success'' ''doctor_dashboard'',
        db0\<lparr>appointments := [appt1, appt2\<lparr>status := BOOKED\<rparr>],
            treatment_notes :=
              [\<lparr>n_id = 1, appointment_id = 2, diagnosis = [], prescription = [],
                n_notes = []\<rparr>]\<rparr>)
   \<and> update_appointment_status db3 (Some 1) 1 clinical_form2 =
       (Flash_Redirect ''Appointment updated.'' ''success'' ''doctor_dashboard'',
        db0\<lparr>appointments := [appt1, appt2],
            treatment_notes :=
              [note1, \<lparr>n_id = 2, appointment_id = 1, diagnosis = ''Cold'', prescription = [],
                       n_notes = []\<rparr>]\<rparr>)"
proof -
  have h: "find (\<lambda>x. a_id x = 2) (appointments db3) = Some appt2"
    by (simp add: db3_def appt1_def appt2_def)
  have "doctor_id appt2 \<noteq> 9" by (simp add: appt2_def)
  with clinical_update [OF h, of 9 clinical_form1]
  have "update_appointment_status db3 (Some 9) 2 clinical_form1 = (Abort 403, db3)"
    by blast
  moreover have "update_appointment_status db3 (Some 1) 2 clinical_form1 =
       (Flash_Redirect ''Appointment updated.'' ''success'' ''doctor_dashboard'',
        db0\<lparr>appointments := [appt1, appt2\<lparr>status := BOOKED\<rparr>],
            treatment_notes :=
              [\<lparr>n_id = 1, appointment_id = 2, diagnosis = [], prescription = [],
                n_notes = []\<rparr>]\<rparr>)"
    by (simp add: update_appointment_status_def db3_def db0_def appt1_def appt2_def note1_def
        clinical_form1_def apply_status_def AppointmentStatus_members_def Let_def)
  moreover have "update_appointment_status db3 (Some 1) 1 clinical_form2 =
       (Flash_Redirect ''Appointment updated.'' ''success'' ''doctor_dashboard'',
        db0\<lparr>appointments := [appt1, appt2],
            treatment_notes :=
              [note1, \<lparr>n_id = 2, appointment_id = 1, diagnosis = ''Cold'', prescription = [],
                       n_notes = []\<rparr>]\<rparr>)"
    by (simp add: update_appointment_status_def db3_def db0_def appt1_def appt2_def note1_def
        clinical_form2_def apply_status_def AppointmentStatus_members_def Let_def next_id_def)
  moreover have "diagnosis note1 = ''Flu''" by (simp add: note1_def)
  ultimately show ?thesis by simp
qed

text \<open>
  C9. A status field that is none of the member names is ignored without an error. For an
  appointment \<open>a\<close> that exists, the admin's status update then answers "Appointment
  status updated." with category success and the stored appointment is still \<open>a\<close> (the
  whole store is unchanged when the primary keys are distinct), and the doctor's clinical
  update of an appointment assigned to that doctor answers "Appointment updated." with
  category success and the stored appointment is still \<open>a\<close>.
\<close>

theorem unrecognized_status_ignored:
  assumes "find (\<lambda>x. a_id x = aid) (appointments s) = Some a"
    and "k \<notin> set (map fst AppointmentStatus_members)"
  shows "fst (admin_update_appointment s aid (Some k)) =
           Flash_Redirect ''Appointment status updated.'' ''success'' ''admin_dashboard''
     \<and> find (\<lambda>x. a_id x = aid) (appointments (snd (admin_update_appointment s aid (Some k))))
         = Some a
     \<and> (distinct (map a_id (appointments s)) \<longrightarrow>
          snd (admin_update_appointment s aid (Some k)) = s)
     \<and> (doctor_id a = did \<and> cf_status f = Some k \<longrightarrow>
          fst (update_appointment_status s (Some did) aid f) =
            Flash_Redirect ''Appointment updated.'' ''success'' ''doctor_dashboard''
        \<and> find (\<lambda>x. a_id x = aid)
             (appointments (snd (update_appointment_status s (Some did) aid f))) = Some a)"
proof -
  from assms(1) have a: "a \<in> set (appointments s)" "a_id a = aid"
    by (auto dest: find_SomeD)
  note same = apply_status_unrecognized [OF assms(2), of "status a"]
  have admin: "admin_update_appointment s aid (Some k) =
      (Flash_Redirect ''Appointment status updated.'' ''success'' ''admin_dashboard'',
       s\<lparr>appointments :=
            map (\<lambda>x. if a_id x = aid then x\<lparr>status := status a\<rparr> else x) (appointments s)\<rparr>)"
    using assms(1) a(2) same by (simp add: admin_update_appointment_def)
  have "find (\<lambda>x. a_id x = aid)
          (map (\<lambda>x. if a_id x = aid then x\<lparr>status := status a\<rparr> else x) (appointments s))
        = Some (a\<lparr>status := status a\<rparr>)"
    using assms(1) by (simp add: find_upd)
  then have kept: "find (\<lambda>x. a_id x = aid)
      (appointments (snd (admin_update_appointment s aid (Some k)))) = Some a"
    by (simp add: admin)
  have unchanged: "snd (admin_update_appointment s aid (Some k)) = s"
    if "distinct (map a_id (appointments s))"
  proof -
    have "map (\<lambda>x. if a_id x = aid then x\<lparr>status := status a\<rparr> else x) (appointments s) =
          appointments s"
    proof (rule map_idI)
      fix x assume x: "x \<in> set (appointments s)"
      from that have inj: "inj_on a_id (set (appointments s))"
        by (simp add: distinct_map)
      show "(if a_id x = aid then x\<lparr>status := status a\<rparr> else x) = x"
      proof (cases "a_id x = aid")
        case True
        with a(2) have "a_id x = a_id a" by simp
        with inj have "x = a" using x a(1) by (rule inj_onD)
        then show ?thesis by simp
      next
        case False
        then show ?thesis by simp
      qed
    qed
    then show ?thesis by (simp add: admin)
  qed
  have doc: "fst (update_appointment_status s (Some did) aid f) =
            Flash_Redirect ''Appointment updated.'' ''success'' ''doctor_dashboard''
        \<and> find (\<lambda>x. a_id x = aid)
             (appointments (snd (update_appointment_status s (Some did) aid f))) = Some a"
    if that: "doctor_id a = did \<and> cf_status f = Some k"
  proof -
    from that have d: "doctor_id a = did" and st: "cf_status f = Some k" by simp_all
    note o = clinical_update_owner [OF assms(1) d, of f]
    from o have r: "fst (update_appointment_status s (Some did) aid f) =
            Flash_Redirect ''Appointment updated.'' ''success'' ''doctor_dashboard''"
      by (rule conjunct1)
    from o have "find (\<lambda>x. a_id x = aid)
             (appointments (snd (update_appointment_status s (Some did) aid f))) =
           Some (a\<lparr>status := apply_status (cf_status f) (status a)\<rparr>)"
      by (rule conjunct2 [THEN conjunct1])
    also have "a\<lparr>status := apply_status (cf_status f) (status a)\<rparr> = a"
      unfolding st same by simp
    finally show ?thesis using r by (rule_tac conjI)
  qed
  have admin_fst: "fst (admin_update_appointment s aid (Some k)) =
           Flash_Redirect ''Appointment status updated.'' ''success'' ''admin_dashboard''"
    unfolding admin by simp
  show ?thesis
  proof (intro conjI impI)
    show "fst (admin_update_appointment s aid (Some k)) =
           Flash_Redirect ''Appointment status updated.'' ''success'' ''admin_dashboard''"
      by (rule admin_fst)
    show "find (\<lambda>x. a_id x = aid)
            (appointments (snd (admin_update_appointment s aid (Some k)))) = Some a"
      by (rule kept)
    show "snd (admin_update_appointment s aid (Some k)) = s"
      if "distinct (map a_id (appointments s))"
      using that by (rule unchanged)
    show "fst (update_appointment_status s (Some did) aid f) =
            Flash_Redirect ''Appointment updated.'' ''success'' ''doctor_dashboard''"
      if "doctor_id a = did \<and> cf_status f = Some k"
      using doc [OF that] by (rule conjunct1)
    show "find (\<lambda>x. a_id x = aid)
             (appointments (snd (update_appointment_status s (Some did) aid f))) = Some a"
      if "doctor_id a = did \<and> cf_status f = Some k"
      using doc [OF that] by (rule conjunct2)
  qed
qed

theorem unrecognized_status_ignored_witness:
  "''Completed'' \<notin> set (map fst AppointmentStatus_members)
   \<and> admin_update_appointment db3 1 (Some ''Completed'') =
       (Flash_Redirect ''Appointment status updated.'' ''success'' ''admin_dashboard'', db3)
   \<and> status appt1 = CANCELLED
   \<and> fst (update_appointment_status db3 (Some 1) 1 clinical_form2) =
       Flash_Redirect ''Appointment updated.'' ''success'' ''doctor_dashboard''
   \<and> find (\<lambda>x. a_id x = 1)
        (appointments (snd (update_appointment_status db3 (Some 1) 1 clinical_form2)))
       = Some appt1"
proof -
  have h: "find (\<lambda>x. a_id x = 1) (appointments db3) = Some appt1"
    by (simp add: db3_def appt1_def)
  have k: "''Completed'' \<notin> set (map fst AppointmentStatus_members)"
    by (simp add: AppointmentStatus_members_def)
  have d: "distinct (map a_id (appointments db3))"
    by (simp add: db3_def appt1_def appt2_def)
  have f: "doctor_id appt1 = 1 \<and> cf_status clinical_form2 = Some ''Completed''"
    by (simp add: appt1_def clinical_form2_def)
  from unrecognized_status_ignored [OF h k, of 1 clinical_form2] d f
  have "fst (admin_update_appointment db3 1 (Some ''Completed'')) =
           Flash_Redirect ''Appointment status updated.'' ''success'' ''admin_dashboard''"
    and "snd (admin_update_appointment db3 1 (Some ''Completed'')) = db3"
    and "fst (update_appointment_status db3 (Some 1) 1 clinical_form2) =
       Flash_Redirect ''Appointment updated.'' ''success'' ''doctor_dashboard''"
    and "find (\<lambda>x. a_id x = 1)
        (appointments (snd (update_appointment_status db3 (Some 1) 1 clinical_form2)))
       = Some appt1"
    by blast+
  moreover have "status appt1 = CANCELLED" by (simp add: appt1_def)
  ultimately show ?thesis using k by (simp add: prod_eq_iff)
qed

section \<open>Toggling a doctor\<close>

lemma linked_cong:
  assumes "linked s"
    and "map (\<lambda>u. (u_id u, u_is_active u)) (users s') = map (\<lambda>u. (u_id u, u_is_active u)) (users s)"
    and "map (\<lambda>d. (d_id d, d_user_id d, d_is_active d)) (doctors s') =
         map (\<lambda>d. (d_id d, d_user_id d, d_is_active d)) (doctors s)"
    and "map p_user_id (patients s') = map p_user_id (patients s)"
  shows "linked s'"
proof -
  have u: "map u_id (users s') = map u_id (users s)"
    using arg_cong [OF assms(2), of "map fst"] by (simp add: o_def)
  have d: "map d_id (doctors s') = map d_id (doctors s)"
    using arg_cong [OF assms(3), of "map fst"] by (simp add: o_def)
  have du: "map d_user_id (doctors s') = map d_user_id (doctors s)"
    using arg_cong [OF assms(3), of "map (fst \<circ> snd)"] by (simp add: o_def)
  have sync: "u_is_active u = d_is_active d"
    if "d \<in> set (doctors s')" "u \<in> set (users s')" "u_id u = d_user_id d" for d u
  proof -
    from that(1) have "(d_id d, d_user_id d, d_is_active d) \<in>
        set (map (\<lambda>d. (d_id d, d_user_id d, d_is_active d)) (doctors s'))" by simp
    then obtain d0 where d0: "d0 \<in> set (doctors s)" "d_user_id d0 = d_user_id d"
      "d_is_active d0 = d_is_active d"
      unfolding assms(3) by auto
    from that(2) have "(u_id u, u_is_active u) \<in>
        set (map (\<lambda>u. (u_id u, u_is_active u)) (users s'))" by simp
    then obtain u0 where u0: "u0 \<in> set (users s)" "u_id u0 = u_id u"
      "u_is_active u0 = u_is_active u"
      unfolding assms(2) by auto
    from assms(1) d0 u0 that(3) show ?thesis by (simp add: linked_def)
  qed
  from assms(1) show ?thesis
    unfolding linked_def u d du assms(4) using sync by simp
qed

lemma leaves_people:
  "users (snd (book_appointment s prof m bf)) = users s
   \<and> doctors (snd (book_appointment s prof m bf)) = doctors s
   \<and> patients (snd (book_appointment s prof m bf)) = patients s"
  "users (snd (cancel_appointment s prof aid)) = users s
   \<and> doctors (snd (cancel_appointment s prof aid)) = doctors s
   \<and> patients (snd (cancel_appointment s prof aid)) = patients s"
  "users (snd (reschedule_appointment s prof aid rf)) = users s
   \<and> doctors (snd (reschedule_appointment s prof aid rf)) = doctors s
   \<and> patients (snd (reschedule_appointment s prof aid rf)) = patients s"
  "users (snd (update_availability s doc today af)) = users s
   \<and> doctors (snd (update_availability s doc today af)) = doctors s
   \<and> patients (snd (update_availability s doc today af)) = patients s"
  "users (snd (admin_update_appointment s aid st)) = users s
   \<and> doctors (snd (admin_update_appointment s aid st)) = doctors s
   \<and> patients (snd (admin_update_appointment s aid st)) = patients s"
  "users (snd (update_appointment_status s doc aid cf)) = users s
   \<and> doctors (snd (update_appointment_status s doc aid cf)) = doctors s
   \<and> patients (snd (update_appointment_status s doc aid cf)) = patients s"
proof -
  show "users (snd (book_appointment s prof m bf)) = users s
   \<and> doctors (snd (book_appointment s prof m bf)) = doctors s
   \<and> patients (snd (book_appointment s prof m bf)) = patients s"
    by (cases m; cases "bf_doctor_id bf"; cases "bf_department_id bf";
        cases "bf_appointment_date bf"; cases "bf_appointment_time bf")
       (simp_all add: book_appointment_def insert_appointment_def split: option.splits)
  show "users (snd (cancel_appointment s prof aid)) = users s
   \<and> doctors (snd (cancel_appointment s prof aid)) = doctors s
   \<and> patients (snd (cancel_appointment s prof aid)) = patients s"
    by (simp add: cancel_appointment_def split: option.splits)
  show "users (snd (reschedule_appointment s prof aid rf)) = users s
   \<and> doctors (snd (reschedule_appointment s prof aid rf)) = doctors s
   \<and> patients (snd (reschedule_appointment s prof aid rf)) = patients s"
    by (cases "rf_appointment_date rf"; cases "rf_appointment_time rf")
       (simp_all add: reschedule_appointment_def update_appointment_def Let_def
          split: option.splits)
  show "users (snd (update_availability s doc today af)) = users s
   \<and> doctors (snd (update_availability s doc today af)) = doctors s
   \<and> patients (snd (update_availability s doc today af)) = patients s"
    by (cases "af_date af"; cases "af_start_time af"; cases "af_end_time af")
       (simp_all add: update_availability_def insert_availability_def split: option.splits)
  show "users (snd (admin_update_appointment s aid st)) = users s
   \<and> doctors (snd (admin_update_appointment s aid st)) = doctors s
   \<and> patients (snd (admin_update_appointment s aid st)) = patients s"
    by (simp add: admin_update_appointment_def split: option.splits)
  show "users (snd (update_appointment_status s doc aid cf)) = users s
   \<and> doctors (snd (update_appointment_status s doc aid cf)) = doctors s
   \<and> patients (snd (update_appointment_status s doc aid cf)) = patients s"
    by (simp add: update_appointment_status_def Let_def split: option.splits)
qed

lemma linked_same_people:
  "linked s \<Longrightarrow> users s' = users s \<and> doctors s' = doctors s \<and> patients s' = patients s
     \<Longrightarrow> linked s'"
  by (simp add: linked_def)

lemma linked_edits:
  assumes "linked s"
  shows "linked (snd (update_doctor s did df))"
    and "linked (snd (admin_update_patient s pid pf))"
    and "linked (snd (patient_profile s prof m pf))"
proof -
  show "linked (snd (update_doctor s did df))"
    by (rule linked_cong [OF assms])
       (auto simp: update_doctor_def o_def split: option.splits field.splits)
  show "linked (snd (admin_update_patient s pid pf))"
    by (rule linked_cong [OF assms])
       (auto simp: admin_update_patient_def o_def split: option.splits)
  show "linked (snd (patient_profile s prof m pf))"
    by (rule linked_cong [OF assms])
       (auto simp: patient_profile_def o_def split: option.splits http_method.splits)
qed



lemma next_id_fresh': "next_id (map k rows) \<notin> k ` set rows"
  using next_id_fresh [of "map k rows"] by simp

lemma linked_iff:
  "linked s \<longleftrightarrow>
     distinct (map d_id (doctors s)) \<and> distinct (map d_user_id (doctors s))
     \<and> d_user_id ` set (doctors s) \<subseteq> u_id ` set (users s)
     \<and> p_user_id ` set (patients s) \<subseteq> u_id ` set (users s)
     \<and> d_user_id ` set (doctors s) \<inter> p_user_id ` set (patients s) = {}
     \<and> (\<forall>d\<in>set (doctors s). \<forall>u\<in>set (users s).
           u_id u = d_user_id d \<longrightarrow> u_is_active u = d_is_active d)"
  by (simp add: linked_def)

lemma linked_sync:
  "linked s \<Longrightarrow> d \<in> set (doctors s) \<Longrightarrow> u \<in> set (users s) \<Longrightarrow> u_id u = d_user_id d
     \<Longrightarrow> u_is_active u = d_is_active d"
  unfolding linked_iff by blast

lemma linked_doctor_user:
  "linked s \<Longrightarrow> d \<in> set (doctors s) \<Longrightarrow> d_user_id d \<in> u_id ` set (users s)"
  unfolding linked_iff by blast

lemma linked_patient_user:
  "linked s \<Longrightarrow> p \<in> set (patients s) \<Longrightarrow> p_user_id p \<in> u_id ` set (users s)"
  unfolding linked_iff by blast

lemma linked_apart:
  "linked s \<Longrightarrow> d \<in> set (doctors s) \<Longrightarrow> p \<in> set (patients s) \<Longrightarrow> d_user_id d \<noteq> p_user_id p"
  unfolding linked_iff by blast

lemma linked_same_doctor:
  assumes "linked s" and "d \<in> set (doctors s)" and "e \<in> set (doctors s)"
    and "d_id d = d_id e \<or> d_user_id d = d_user_id e"
  shows "d = e"
proof -
  from assms(1) have "inj_on d_id (set (doctors s))" and "inj_on d_user_id (set (doctors s))"
    by (simp_all add: linked_iff distinct_map)
  with assms(2-4) show ?thesis by (meson inj_onD)
qed

lemma linked_new_user:
  assumes L: "linked s" and N: "u_id nu \<notin> u_id ` set (users s)"
  shows "linked (s\<lparr>users := users s @ [nu]\<rparr>)"
proof -
  define s' where "s' = s\<lparr>users := users s @ [nu]\<rparr>"
  have [simp]: "users s' = users s @ [nu]" "doctors s' = doctors s" "patients s' = patients s"
    by (simp_all add: s'_def)
  have "linked s'"
    unfolding linked_iff
  proof (intro conjI ballI impI)
    show "distinct (map d_id (doctors s'))" "distinct (map d_user_id (doctors s'))"
      using L by (simp_all add: linked_iff)
    show "d_user_id ` set (doctors s') \<subseteq> u_id ` set (users s')"
      using L by (auto simp: linked_iff)
    show "p_user_id ` set (patients s') \<subseteq> u_id ` set (users s')"
      using L by (auto simp: linked_iff)
    show "d_user_id ` set (doctors s') \<inter> p_user_id ` set (patients s') = {}"
      using L by (simp add: linked_iff)
  next
    fix d u assume d: "d \<in> set (doctors s')" and u: "u \<in> set (users s')"
      and e: "u_id u = d_user_id d"
    from d have d': "d \<in> set (doctors s)" by simp
    from u have "u \<in> set (users s) \<or> u = nu" by auto
    then show "u_is_active u = d_is_active d"
    proof
      assume "u \<in> set (users s)"
      with L d' show ?thesis using e by (rule linked_sync)
    next
      assume "u = nu"
      with e have "u_id nu = d_user_id d" by simp
      moreover from L d' have "d_user_id d \<in> u_id ` set (users s)" by (rule linked_doctor_user)
      ultimately show ?thesis using N by simp
    qed
  qed
  then show ?thesis by (simp add: s'_def)
qed

lemma linked_new_doctor:
  assumes L: "linked s" and i: "d_id nd \<notin> d_id ` set (doctors s)"
    and n: "d_user_id nd \<notin> d_user_id ` set (doctors s)"
    and p: "d_user_id nd \<notin> p_user_id ` set (patients s)"
    and u: "d_user_id nd \<in> u_id ` set (users s)"
    and a: "\<And>v. v \<in> set (users s) \<Longrightarrow> u_id v = d_user_id nd \<Longrightarrow> u_is_active v = d_is_active nd"
  shows "linked (s\<lparr>doctors := doctors s @ [nd]\<rparr>)"
proof -
  define s' where "s' = s\<lparr>doctors := doctors s @ [nd]\<rparr>"
  have [simp]: "users s' = users s" "doctors s' = doctors s @ [nd]" "patients s' = patients s"
    by (simp_all add: s'_def)
  have "linked s'"
    unfolding linked_iff
  proof (intro conjI ballI impI)
    show "distinct (map d_id (doctors s'))"
      using L i by (simp add: linked_iff)
    show "distinct (map d_user_id (doctors s'))"
      using L n by (simp add: linked_iff)
    show "d_user_id ` set (doctors s') \<subseteq> u_id ` set (users s')"
      using L u by (auto simp: linked_iff)
    show "p_user_id ` set (patients s') \<subseteq> u_id ` set (users s')"
      using L by (simp add: linked_iff)
    show "d_user_id ` set (doctors s') \<inter> p_user_id ` set (patients s') = {}"
      using L p by (auto simp: linked_iff)
  next
    fix d v assume d: "d \<in> set (doctors s')" and v: "v \<in> set (users s')"
      and e: "u_id v = d_user_id d"
    from v have v': "v \<in> set (users s)" by simp
    from d have "d \<in> set (doctors s) \<or> d = nd" by auto
    then show "u_is_active v = d_is_active d"
    proof
      assume "d \<in> set (doctors s)"
      with L show ?thesis using v' e by (rule linked_sync)
    next
      assume "d = nd"
      with e a [OF v'] show ?thesis by simp
    qed
  qed
  then show ?thesis by (simp add: s'_def)
qed

lemma linked_new_patient:
  assumes L: "linked s" and n: "p_user_id np \<notin> d_user_id ` set (doctors s)"
    and u: "p_user_id np \<in> u_id ` set (users s)"
  shows "linked (s\<lparr>patients := patients s @ [np]\<rparr>)"
  using assms by (auto simp: linked_iff)

lemma linked_init_db:
  assumes "linked s"
  shows "linked (snd (init_db s gen))"
proof -
  define s1 where "s1 = (if length (departments s) = 0
      then s\<lparr>departments := add_departments (departments s) create_default_departments\<rparr>
      else s)"
  have s1: "users s1 = users s" "doctors s1 = doctors s" "patients s1 = patients s"
    by (simp_all add: s1_def)
  with assms have L1: "linked s1" by (simp add: linked_def)
  define admin where "admin = \<lparr>u_id = next_id (map u_id (users s1)),
      full_name = ''Hospital Admin'', email = ''admin@hms.local'', phone = ''0000000000'',
      role = ''admin'', password_hash = gen ''Admin@123'', u_is_active = True\<rparr>"
  have "u_id admin \<notin> u_id ` set (users s1)"
    unfolding admin_def by (simp add: next_id_fresh')
  with L1 have L2: "linked (s1\<lparr>users := users s1 @ [admin]\<rparr>)" by (rule linked_new_user)
  have "snd (init_db s gen) = s1 \<or> snd (init_db s gen) = s1\<lparr>users := users s1 @ [admin]\<rparr>"
    unfolding init_db_def s1_def [symmetric] admin_def [symmetric] Let_def
    by (simp add: insert_user_def split: option.splits)
  with L1 L2 show ?thesis by auto
qed

lemma linked_register:
  assumes L: "linked s"
  shows "linked (snd (register s gen m f))"
proof (cases m)
  case GET
  with L show ?thesis by (simp add: register_def)
next
  case POST
  define nu where "nu = \<lparr>u_id = next_id (map u_id (users s)),
      full_name = strip (form_get (gf_full_name f) []),
      email = lower (strip (form_get (gf_email f) [])), phone = form_get (gf_phone f) [],
      role = ''patient'', password_hash = gen (form_get (gf_password f) []),
      u_is_active = True\<rparr>"
  define np where "np = \<lparr>p_id = next_id (map p_id (patients s)),
      p_user_id = next_id (map u_id (users s)), address = None, blood_group = None,
      emergency_contact = None\<rparr>"
  define s1 where "s1 = s\<lparr>users := users s @ [nu]\<rparr>"
  have fresh: "u_id nu \<notin> u_id ` set (users s)"
    unfolding nu_def by (simp add: next_id_fresh')
  with L have L1: "linked s1" unfolding s1_def by (rule linked_new_user)
  have "p_user_id np \<notin> d_user_id ` set (doctors s1)"
  proof
    assume "p_user_id np \<in> d_user_id ` set (doctors s1)"
    then obtain d where d: "d \<in> set (doctors s)" "d_user_id d = u_id nu"
      by (auto simp: s1_def np_def nu_def)
    from L d(1) have "d_user_id d \<in> u_id ` set (users s)" by (rule linked_doctor_user)
    with d(2) fresh show False by simp
  qed
  moreover have "p_user_id np \<in> u_id ` set (users s1)"
    by (simp add: s1_def np_def nu_def)
  ultimately have L2: "linked (s1\<lparr>patients := patients s1 @ [np]\<rparr>)"
    using L1 by (intro linked_new_patient)
  have "snd (register s gen m f) = s \<or>
        snd (register s gen m f) = s1\<lparr>patients := patients s1 @ [np]\<rparr>"
    unfolding register_def POST s1_def nu_def [symmetric] np_def [symmetric] Let_def
    by (simp add: insert_user_def nu_def [symmetric] np_def [symmetric] split: option.splits)
  with L L2 show ?thesis by auto
qed



lemma linked_create_doctor:
  assumes L: "linked s"
  shows "linked (snd (create_doctor s gen f))"
proof (cases "df_department_id f")
  case Missing
  with L show ?thesis by (simp add: create_doctor_def Let_def)
next
  case Malformed
  with L show ?thesis by (simp add: create_doctor_def Let_def)
next
  case (Parsed dep)
  define nu where "nu = \<lparr>u_id = next_id (map u_id (users s)),
      full_name = strip (form_get (df_full_name f) []),
      email = lower (strip (form_get (df_email f) [])), phone = form_get (df_phone f) [],
      role = ''doctor'', password_hash = gen (form_get (df_password f) ''Doctor@123''),
      u_is_active = True\<rparr>"
  define nd where "nd = \<lparr>d_id = next_id (map d_id (doctors s)),
      d_user_id = next_id (map u_id (users s)), d_department_id = dep,
      specialization = strip (form_get (df_specialization f) []),
      room = form_get (df_room f) [],
      availability_summary = form_get (df_availability_summary f) [],
      d_is_active = True\<rparr>"
  define s1 where "s1 = s\<lparr>users := users s @ [nu]\<rparr>"
  have s1: "users s1 = users s @ [nu]" "doctors s1 = doctors s" "patients s1 = patients s"
    by (simp_all add: s1_def)
  have ids: "u_id nu = next_id (map u_id (users s))" "d_user_id nd = u_id nu"
    "d_id nd = next_id (map d_id (doctors s))" "u_is_active nu" "d_is_active nd"
    by (simp_all add: nu_def nd_def)
  have fresh: "u_id nu \<notin> u_id ` set (users s)"
    unfolding ids(1) by (rule next_id_fresh')
  with L have L1: "linked s1" unfolding s1_def by (rule linked_new_user)
  have a: "d_id nd \<notin> d_id ` set (doctors s1)"
    unfolding s1 ids(3) by (rule next_id_fresh')
  have b: "d_user_id nd \<notin> d_user_id ` set (doctors s1)"
  proof
    assume "d_user_id nd \<in> d_user_id ` set (doctors s1)"
    then obtain d where d: "d \<in> set (doctors s)" "d_user_id d = u_id nu"
      unfolding s1 ids(2) by auto
    from L d(1) have "d_user_id d \<in> u_id ` set (users s)" by (rule linked_doctor_user)
    with d(2) fresh show False by simp
  qed
  have c: "d_user_id nd \<notin> p_user_id ` set (patients s1)"
  proof
    assume "d_user_id nd \<in> p_user_id ` set (patients s1)"
    then obtain p where p: "p \<in> set (patients s)" "p_user_id p = u_id nu"
      unfolding s1 ids(2) by auto
    from L p(1) have "p_user_id p \<in> u_id ` set (users s)" by (rule linked_patient_user)
    with p(2) fresh show False by simp
  qed
  have d: "d_user_id nd \<in> u_id ` set (users s1)"
    unfolding s1 ids(2) by simp
  have e: "u_is_active v = d_is_active nd"
    if "v \<in> set (users s1)" "u_id v = d_user_id nd" for v
  proof -
    from that(1) have "v \<in> set (users s) \<or> v = nu" unfolding s1 by auto
    then show ?thesis
    proof
      assume "v \<in> set (users s)"
      then have "u_id v \<in> u_id ` set (users s)" by simp
      with that(2) ids(2) fresh show ?thesis by simp
    next
      assume "v = nu"
      with ids(4,5) show ?thesis by simp
    qed
  qed
  from L1 a b c d e have L2: "linked (s1\<lparr>doctors := doctors s1 @ [nd]\<rparr>)"
    by (rule linked_new_doctor)
  have "snd (create_doctor s gen f) = s \<or>
        snd (create_doctor s gen f) = s1\<lparr>doctors := doctors s1 @ [nd]\<rparr>"
    unfolding create_doctor_def Parsed s1_def nu_def [symmetric] Let_def
    by (simp add: insert_user_def nu_def [symmetric] nd_def [symmetric] split: option.splits)
  with L L2 show ?thesis by auto
qed

lemma in_map_upd:
  "y \<in> set (map (\<lambda>x. if P x then g x else x) xs) \<Longrightarrow>
     \<exists>x\<in>set xs. y = (if P x then g x else x)"
  by auto

lemma linked_toggle_doctor:
  assumes L: "linked s"
  shows "linked (snd (toggle_doctor s did))"
proof (cases "find (\<lambda>x. d_id x = did) (doctors s)")
  case None
  with L show ?thesis by (simp add: toggle_doctor_def)
next
  case (Some doctor)
  then have doc: "doctor \<in> set (doctors s)" by (auto dest: find_SomeD)
  show ?thesis
  proof (cases "find (\<lambda>u. u_id u = d_user_id doctor) (users s)")
    case None
    with L Some show ?thesis by (simp add: toggle_doctor_def)
  next
    case usr: (Some usr)
    then have u: "u_id usr = d_user_id doctor" by (auto dest: find_SomeD)
    define fd :: "doctor \<Rightarrow> doctor" where "fd = (\<lambda>x. if d_id x = d_id doctor
        then x\<lparr>d_is_active := \<not> d_is_active doctor\<rparr> else x)"
    define fu :: "user \<Rightarrow> user" where "fu = (\<lambda>v. if u_id v = u_id usr
        then v\<lparr>u_is_active := \<not> d_is_active doctor\<rparr> else v)"
    define s' where "s' = s\<lparr>doctors := map fd (doctors s), users := map fu (users s)\<rparr>"
    have res: "snd (toggle_doctor s did) = s'"
      using Some usr by (simp add: toggle_doctor_def s'_def fd_def fu_def)
    have s': "doctors s' = map fd (doctors s)" "users s' = map fu (users s)"
      "patients s' = patients s"
      by (simp_all add: s'_def)
    have keep: "map d_id (map fd (doctors s)) = map d_id (doctors s)"
      "map d_user_id (map fd (doctors s)) = map d_user_id (doctors s)"
      "map u_id (map fu (users s)) = map u_id (users s)"
      by (simp_all add: fd_def fu_def o_def cong: if_cong)
    have sets: "d_id ` set (map fd (doctors s)) = d_id ` set (doctors s)"
      "d_user_id ` set (map fd (doctors s)) = d_user_id ` set (doctors s)"
      "u_id ` set (map fu (users s)) = u_id ` set (users s)"
      using keep by (metis set_map)+
    have "linked s'"
      unfolding linked_iff s'
    proof (intro conjI ballI impI)
      show "distinct (map d_id (map fd (doctors s)))"
        "distinct (map d_user_id (map fd (doctors s)))"
        unfolding keep using L by (simp_all add: linked_iff)
      show "d_user_id ` set (map fd (doctors s)) \<subseteq> u_id ` set (map fu (users s))"
        "p_user_id ` set (patients s) \<subseteq> u_id ` set (map fu (users s))"
        "d_user_id ` set (map fd (doctors s)) \<inter> p_user_id ` set (patients s) = {}"
        unfolding sets using L by (simp_all add: linked_iff)
    next
      fix d' u' assume "d' \<in> set (map fd (doctors s))" "u' \<in> set (map fu (users s))"
        and e: "u_id u' = d_user_id d'"
      then obtain d v where d: "d \<in> set (doctors s)" "d' = fd d"
        and v: "v \<in> set (users s)" "u' = fu v" by auto
      from e d(2) v(2) have e': "u_id v = d_user_id d"
        by (simp add: fd_def fu_def split: if_splits)
      from L d(1) v(1) e' have sync: "u_is_active v = d_is_active d" by (rule linked_sync)
      have both: "d_id d = d_id doctor \<longleftrightarrow> u_id v = u_id usr"
      proof
        assume "d_id d = d_id doctor"
        with L d(1) doc have "d = doctor" by (intro linked_same_doctor) auto
        with e' u show "u_id v = u_id usr" by simp
      next
        assume "u_id v = u_id usr"
        with e' u have "d_user_id d = d_user_id doctor" by simp
        with L d(1) doc have "d = doctor" by (intro linked_same_doctor) auto
        then show "d_id d = d_id doctor" by simp
      qed
      show "u_is_active u' = d_is_active d'"
        unfolding d(2) v(2) fd_def fu_def using both sync by simp
    qed
    with res show ?thesis by simp
  qed
qed

lemma linked_toggle_patient:
  assumes L: "linked s"
  shows "linked (snd (toggle_patient s pid))"
proof (cases "find (\<lambda>x. p_id x = pid) (patients s)")
  case None
  with L show ?thesis by (simp add: toggle_patient_def)
next
  case (Some patient)
  then have pat: "patient \<in> set (patients s)" by (auto dest: find_SomeD)
  show ?thesis
  proof (cases "find (\<lambda>u. u_id u = p_user_id patient) (users s)")
    case None
    with L Some show ?thesis by (simp add: toggle_patient_def)
  next
    case usr: (Some usr)
    then have u: "u_id usr = p_user_id patient" by (auto dest: find_SomeD)
    define fu :: "user \<Rightarrow> user" where "fu = (\<lambda>v. if u_id v = u_id usr
        then v\<lparr>u_is_active := \<not> u_is_active usr\<rparr> else v)"
    define s' where "s' = s\<lparr>users := map fu (users s)\<rparr>"
    have res: "snd (toggle_patient s pid) = s'"
      using Some usr by (simp add: toggle_patient_def s'_def fu_def)
    have s': "doctors s' = doctors s" "users s' = map fu (users s)" "patients s' = patients s"
      by (simp_all add: s'_def)
    have keep: "map u_id (map fu (users s)) = map u_id (users s)"
      by (simp add: fu_def o_def cong: if_cong)
    have sets: "u_id ` set (map fu (users s)) = u_id ` set (users s)"
      using keep by (metis set_map)
    have "linked s'"
      unfolding linked_iff s'
    proof (intro conjI ballI impI)
      show "distinct (map d_id (doctors s))" "distinct (map d_user_id (doctors s))"
        "d_user_id ` set (doctors s) \<inter> p_user_id ` set (patients s) = {}"
        using L by (simp_all add: linked_iff)
      show "d_user_id ` set (doctors s) \<subseteq> u_id ` set (map fu (users s))"
        "p_user_id ` set (patients s) \<subseteq> u_id ` set (map fu (users s))"
        unfolding sets using L by (simp_all add: linked_iff)
    next
      fix d u' assume d: "d \<in> set (doctors s)" and "u' \<in> set (map fu (users s))"
        and e: "u_id u' = d_user_id d"
      then obtain v where v: "v \<in> set (users s)" "u' = fu v" by auto
      from e v(2) have e': "u_id v = d_user_id d" by (simp add: fu_def split: if_splits)
      from L d pat have "d_user_id d \<noteq> p_user_id patient" by (rule linked_apart)
      with e' u have "u_id v \<noteq> u_id usr" by simp
      with v(2) have "u' = v" by (simp add: fu_def)
      with L d v(1) e' show "u_is_active u' = d_is_active d" by (simp add: linked_sync)
    qed
    with res show ?thesis by simp
  qed
qed

lemma linked_handle: "linked s \<Longrightarrow> linked (handle s r)"
proof (cases r)
  case (Init_Db gen)
  assume "linked s" then show ?thesis unfolding Init_Db handle.simps by (rule linked_init_db)
next
  case (Register gen m f)
  assume "linked s" then show ?thesis unfolding Register handle.simps by (rule linked_register)
next
  case (Create_Doctor gen f)
  assume "linked s" then show ?thesis unfolding Create_Doctor handle.simps
    by (rule linked_create_doctor)
next
  case (Toggle_Doctor did)
  assume "linked s" then show ?thesis unfolding Toggle_Doctor handle.simps
    by (rule linked_toggle_doctor)
next
  case (Update_Doctor did f)
  assume "linked s" then show ?thesis unfolding Update_Doctor handle.simps
    by (rule linked_edits)
next
  case (Admin_Update_Patient pid f)
  assume "linked s" then show ?thesis unfolding Admin_Update_Patient handle.simps
    by (rule linked_edits)
next
  case (Toggle_Patient pid)
  assume "linked s" then show ?thesis unfolding Toggle_Patient handle.simps
    by (rule linked_toggle_patient)
next
  case (Admin_Update_Appointment aid st)
  assume "linked s" then show ?thesis unfolding Admin_Update_Appointment handle.simps
    by (rule linked_same_people) (rule leaves_people)
next
  case (Update_Appointment_Status doc aid f)
  assume "linked s" then show ?thesis unfolding Update_Appointment_Status handle.simps
    by (rule linked_same_people) (rule leaves_people)
next
  case (Update_Availability doc today f)
  assume "linked s" then show ?thesis unfolding Update_Availability handle.simps
    by (rule linked_same_people) (rule leaves_people)
next
  case (Patient_Profile prof m f)
  assume "linked s" then show ?thesis unfolding Patient_Profile handle.simps
    by (rule linked_edits)
next
  case (Book_Appointment prof m f)
  assume "linked s" then show ?thesis unfolding Book_Appointment handle.simps
    by (rule linked_same_people) (rule leaves_people)
next
  case (Cancel_Appointment prof aid)
  assume "linked s" then show ?thesis unfolding Cancel_Appointment handle.simps
    by (rule linked_same_people) (rule leaves_people)
next
  case (Reschedule_Appointment prof aid f)
  assume "linked s" then show ?thesis unfolding Reschedule_Appointment handle.simps
    by (rule linked_same_people) (rule leaves_people)
qed

lemma reachable_linked: "reachable s \<Longrightarrow> linked s"
proof (induction rule: reachable.induct)
  case created
  show ?case by (simp add: linked_def)
next
  case (request s r)
  then show ?case by (simp add: linked_handle)
qed

lemma find_some:
  "\<exists>x\<in>set xs. P x \<Longrightarrow> \<exists>y. find P xs = Some y"
  by (cases "find P xs") (auto simp: find_None_iff)

text \<open>
  C8. In every store the application reaches, a doctor \<open>d\<close> has a linked user
  \<open>u\<close>, with the same active flag. One toggle of \<open>d\<close> succeeds and leaves the
  doctor and the user with the negation of the flag \<open>d\<close> had, and a second toggle gives
  back the store as it was before the first, so that the doctor and the user have
  their first flags again.
\<close>

theorem toggle_doctor_twice:
  assumes "reachable s" and "find (\<lambda>x. d_id x = did) (doctors s) = Some d"
  shows "\<exists>u. find (\<lambda>v. u_id v = d_user_id d) (users s) = Some u
     \<and> u_is_active u = d_is_active d
     \<and> fst (toggle_doctor s did) =
         Flash_Redirect ''Doctor status updated.'' ''info'' ''admin_dashboard''
     \<and> find (\<lambda>x. d_id x = did) (doctors (snd (toggle_doctor s did))) =
         Some (d\<lparr>d_is_active := \<not> d_is_active d\<rparr>)
     \<and> find (\<lambda>v. u_id v = d_user_id d) (users (snd (toggle_doctor s did))) =
         Some (u\<lparr>u_is_active := \<not> d_is_active d\<rparr>)
     \<and> toggle_doctor (snd (toggle_doctor s did)) did =
         (Flash_Redirect ''Doctor status updated.'' ''info'' ''admin_dashboard'', s)"
proof -
  from assms(1) have L: "linked s" by (rule reachable_linked)
  from assms(2) have d: "d \<in> set (doctors s)" "d_id d = did" by (auto dest: find_SomeD)
  from L d(1) have "d_user_id d \<in> u_id ` set (users s)" by (rule linked_doctor_user)
  then have "\<exists>v\<in>set (users s). u_id v = d_user_id d" by auto
  then obtain u where fu: "find (\<lambda>v. u_id v = d_user_id d) (users s) = Some u"
    using find_some [of "users s" "\<lambda>v. u_id v = d_user_id d"] by blast
  then have u: "u \<in> set (users s)" "u_id u = d_user_id d" by (auto dest: find_SomeD)
  from L d(1) u have sync: "u_is_active u = d_is_active d" by (rule linked_sync)
  define a where "a = d_is_active d"
  define gd :: "bool \<Rightarrow> doctor \<Rightarrow> doctor"
    where "gd b = (\<lambda>x. if d_id x = did then x\<lparr>d_is_active := b\<rparr> else x)" for b
  define gu :: "bool \<Rightarrow> user \<Rightarrow> user"
    where "gu b = (\<lambda>v. if u_id v = d_user_id d then v\<lparr>u_is_active := b\<rparr> else v)" for b
  define s1 where "s1 = s\<lparr>doctors := map (gd (\<not> a)) (doctors s),
      users := map (gu (\<not> a)) (users s)\<rparr>"
  have t1: "toggle_doctor s did =
      (Flash_Redirect ''Doctor status updated.'' ''info'' ''admin_dashboard'', s1)"
    using assms(2) fu d(2) u(2) by (simp add: toggle_doctor_def s1_def a_def gd_def gu_def)
  have fd1: "find (\<lambda>x. d_id x = did) (doctors s1) = Some (d\<lparr>d_is_active := \<not> a\<rparr>)"
    using assms(2) by (simp add: s1_def gd_def find_upd)
  have fu1: "find (\<lambda>v. u_id v = d_user_id d) (users s1) = Some (u\<lparr>u_is_active := \<not> a\<rparr>)"
    using fu by (simp add: s1_def gu_def find_upd)
  have t2: "toggle_doctor s1 did =
      (Flash_Redirect ''Doctor status updated.'' ''info'' ''admin_dashboard'',
       s1\<lparr>doctors := map (gd a) (doctors s1), users := map (gu a) (users s1)\<rparr>)"
    using fd1 fu1 d(2) u(2) by (simp add: toggle_doctor_def gd_def gu_def)
  have "map (gd a \<circ> gd (\<not> a)) (doctors s) = doctors s"
  proof (rule map_idI)
    fix x assume x: "x \<in> set (doctors s)"
    show "(gd a \<circ> gd (\<not> a)) x = x"
    proof (cases "d_id x = did")
      case True
      with L x d have "x = d" by (intro linked_same_doctor) auto
      then show ?thesis by (simp add: gd_def a_def d(2))
    next
      case False
      then show ?thesis by (simp add: gd_def)
    qed
  qed
  then have back_d: "map (gd a) (doctors s1) = doctors s" by (simp add: s1_def)
  have "map (gu a \<circ> gu (\<not> a)) (users s) = users s"
  proof (rule map_idI)
    fix v assume v: "v \<in> set (users s)"
    show "(gu a \<circ> gu (\<not> a)) v = v"
    proof (cases "u_id v = d_user_id d")
      case True
      with L d(1) v have "u_is_active v = d_is_active d" by (intro linked_sync)
      with True show ?thesis by (simp add: gu_def a_def)
    next
      case False
      then show ?thesis by (simp add: gu_def)
    qed
  qed
  then have back_u: "map (gu a) (users s1) = users s" by (simp add: s1_def)
  have "s1\<lparr>doctors := map (gd a) (doctors s1), users := map (gu a) (users s1)\<rparr> = s"
    unfolding back_d back_u by (simp add: s1_def)
  with t2 have t2': "toggle_doctor s1 did =
      (Flash_Redirect ''Doctor status updated.'' ''info'' ''admin_dashboard'', s)"
    by simp
  show ?thesis
  proof (intro exI conjI)
    show "find (\<lambda>v. u_id v = d_user_id d) (users s) = Some u" by (rule fu)
    show "u_is_active u = d_is_active d" by (rule sync)
    show "fst (toggle_doctor s did) =
         Flash_Redirect ''Doctor status updated.'' ''info'' ''admin_dashboard''"
      by (simp add: t1)
    show "find (\<lambda>x. d_id x = did) (doctors (snd (toggle_doctor s did))) =
         Some (d\<lparr>d_is_active := \<not> d_is_active d\<rparr>)"
      using fd1 by (simp add: t1 a_def)
    show "find (\<lambda>v. u_id v = d_user_id d) (users (snd (toggle_doctor s did))) =
         Some (u\<lparr>u_is_active := \<not> d_is_active d\<rparr>)"
      using fu1 by (simp add: t1 a_def)
    show "toggle_doctor (snd (toggle_doctor s did)) did =
         (Flash_Redirect ''Doctor status updated.'' ''info'' ''admin_dashboard'', s)"
      using t2' by (simp add: t1)
  qed
qed

theorem toggle_doctor_twice_witness:
  "reachable db4
   \<and> toggle_doctor db4 1 =
       (Flash_Redirect ''Doctor status updated.'' ''info'' ''admin_dashboard'',
        db0\<lparr>users := [user2\<lparr>u_is_active := False\<rparr>],
            doctors := [doctor2\<lparr>d_is_active := False\<rparr>]\<rparr>)
   \<and> toggle_doctor (snd (toggle_doctor db4 1)) 1 =
       (Flash_Redirect ''Doctor status updated.'' ''info'' ''admin_dashboard'', db4)"
proof -
  have "reachable db0" unfolding db0_def by (rule reachable.created)
  then have "reachable (handle db0 (Create_Doctor gen0 doctor_form1))"
    by (rule reachable.request)
  moreover have "handle db0 (Create_Doctor gen0 doctor_form1) = db4"
    by (simp add: create_doctor_def insert_user_def db0_def db4_def user2_def doctor2_def
        doctor_form1_def gen0_def next_id_def strip_def lower_def py_isspace_def Let_def)
  ultimately have r: "reachable db4" by simp
  have f: "find (\<lambda>x. d_id x = 1) (doctors db4) = Some doctor2"
    by (simp add: db4_def doctor2_def)
  from toggle_doctor_twice [OF r f]
  have "toggle_doctor (snd (toggle_doctor db4 1)) 1 =
       (Flash_Redirect ''Doctor status updated.'' ''info'' ''admin_dashboard'', db4)"
    by blast
  moreover have "toggle_doctor db4 1 =
       (Flash_Redirect ''Doctor status updated.'' ''info'' ''admin_dashboard'',
        db0\<lparr>users := [user2\<lparr>u_is_active := False\<rparr>],
            doctors := [doctor2\<lparr>d_is_active := False\<rparr>]\<rparr>)"
    by (simp add: toggle_doctor_def db4_def db0_def user2_def doctor2_def)
  ultimately show ?thesis using r by simp
qed

end
